theory Spec2Isabelle
  imports Main "HOL-Library.Word"
begin

section \<open>Data model of the benchmarker's scenario code\<close>

text \<open>
  Go's \<open>uint\<close> on the 64-bit targets the benchmarker is built for is a 64-bit word:
  \<open>+\<close> wraps and the order is the unsigned one. A \<open>time.Time\<close> is the number of
  nanoseconds since Go's zero instant, so \<open>IsZero\<close> is equality with 0 and
  \<open>Before\<close> is \<open><\<close>; a \<open>time.Duration\<close> is a number of nanoseconds.
\<close>

type_synonym uint = "64 word"
type_synonym time = int
type_synonym duration = int

definition IsZero :: "time \<Rightarrow> bool" where
  "IsZero t = (t = 0)"

definition Before :: "time \<Rightarrow> time \<Rightarrow> bool" where
  "Before t u = (t < u)"

text \<open>
  The messages of \<open>fatalErrorf\<close> in \<open>scenario.go\<close> are Japanese sentences; each one
  is a constructor here, named after what it says.
\<close>

datatype msg =
    EventOrderWrong        \<comment> \<open>the order of the events is not correct\<close>
  | EventCountWrong        \<comment> \<open>the number of the events is not correct\<close>
  | JsonDecodeFailed       \<comment> \<open>decoding the JSON failed\<close>
  | WrongErrorCode         \<comment> \<open>the right error code was not obtained\<close>
  | WrongUserInfo          \<comment> \<open>the right user information was not obtained\<close>
  | WrongAdminInfo         \<comment> \<open>the right administrator information was not obtained\<close>
  | WrongReservationInfo   \<comment> \<open>the right reservation information was not obtained\<close>
  | WrongReport            \<comment> \<open>the right report was not obtained\<close>
  | ChecksumFailed         \<comment> \<open>generating the checksum failed\<close>
  | DomMismatch            \<comment> \<open>the DOM structure differs from the initial one\<close>
  | WrapperNotFound        \<comment> \<open>app-wrapper was not found\<close>
  | EventsDecodeFailed     \<comment> \<open>decoding the JSON of the event list failed\<close>
  | LoginUserDecodeFailed  \<comment> \<open>decoding the JSON of the login user failed\<close>
  | LoginUserIsNull        \<comment> \<open>the login user is null\<close>
  | LoginUserDiffers       \<comment> \<open>the login user is another one\<close>
  | LoginUserNotNull       \<comment> \<open>the login user is not null\<close>
  | AttrsMissing           \<comment> \<open>app-wrapper has no data-events or no data-login-user\<close>
  | RequestFailed          \<comment> \<open>the request failed: timeout or connection error\<close>
  | UnexpectedStatusCode   \<comment> \<open>the status code is not the expected one\<close>

datatype error = Fatal msg | EOF

text \<open>A Go function either returns or panics (index out of range, nil dereference, assert).\<close>

datatype panic = IndexOutOfRange | NilDereference | AssertFailed

datatype 'a outcome = Returns 'a | Panics panic

text \<open>
  Modelled from the spec: the \<open>Reservation\<close> struct is declared in a file of the repository
  other than \<open>scenario.go\<close>. The spec's data model gives it the reservation ID, the event
  ID, the user ID, the sheet rank and number, the creation time and the optional cancellation
  time; \<open>CanceledAt\<close> is the zero time while the reservation is active. A struct literal
  that names only some fields, as the one of \<open>reserveSheet\<close>, leaves the others zero.
\<close>

record Reservation =
  ID :: uint
  EventID :: uint
  UserID :: uint
  SheetRank :: string
  SheetNum :: uint
  CreatedAt :: time
  CanceledAt :: time

record Event =
  ID :: uint
  Title :: string
  Price :: uint
  PublicFg :: bool
  ClosedFg :: bool
  Remains :: int
  CreatedAt :: time

record JsonEvent =
  ID :: uint
  Title :: string

section \<open>Event-list reconciliation: \<open>checkEventsList\<close>\<close>

text \<open>
  \<open>sort.SliceIsSorted(events, less)\<close> is true unless \<open>less(i, i-1)\<close> holds for some
  \<open>i\<close>; with \<open>less(i, j) = events[i].ID < events[j].ID\<close> that is: no event has a smaller ID
  than its predecessor.
\<close>

fun SliceIsSorted :: "('a \<Rightarrow> 'a \<Rightarrow> bool) \<Rightarrow> 'a list \<Rightarrow> bool" where
  "SliceIsSorted lt (x # y # ys) = (\<not> lt y x \<and> SliceIsSorted lt (y # ys))"
| "SliceIsSorted lt _ = True"

text \<open>
  Modelled from the spec: \<open>FilterPublicEvents\<close> lives in a file of the repository that is
  other than \<open>scenario.go\<close>; the spec calls its result the expected public events, the
  events of the ledger whose public flag is set, in the ledger's order.
\<close>

definition FilterPublicEvents :: "Event list \<Rightarrow> Event list" where
  "FilterPublicEvents src = filter PublicFg src"

text \<open>
  The loop of the deficit branch,
  \<^verbatim>\<open>for i := len(expected) - 1; i > 0; i-- {
       if expected[i].ID <= events[len(events)-1].ID { break }
       missed = expected[i:] }\<close>
  as a recursion on \<open>i\<close>; \<open>lastID\<close> is \<open>events[len(events)-1].ID\<close>.
\<close>

fun missedLoop :: "Event list \<Rightarrow> uint \<Rightarrow> nat \<Rightarrow> Event list \<Rightarrow> Event list" where
  "missedLoop expected lastID 0 missed = missed"
| "missedLoop expected lastID (Suc n) missed =
     (if Event.ID (expected ! Suc n) \<le> lastID then missed
      else missedLoop expected lastID n (drop (Suc n) expected))"

text \<open>
  The loop of the surplus branch,
  \<^verbatim>\<open>for i := len(events) - 1; i > 0; i-- {
       if events[i].ID <= expected[len(expected)-1].ID { break }
       events = events[:i] }\<close>
  Reading \<open>expected[len(expected)-1]\<close> panics when \<open>expected\<close> is empty.
\<close>

fun trimLoop :: "Event list \<Rightarrow> JsonEvent list \<Rightarrow> nat \<Rightarrow> JsonEvent list outcome" where
  "trimLoop expected events 0 = Returns events"
| "trimLoop expected events (Suc n) =
     (if expected = [] then Panics IndexOutOfRange
      else if JsonEvent.ID (events ! Suc n) \<le> Event.ID (last expected) then Returns events
      else trimLoop expected (take (Suc n) events) n)"

text \<open>
  \<open>checkEventsList(state, events)\<close>. The ledger's events (\<open>state.GetEvents()\<close>), the clock
  (\<open>time.Now()\<close>) and \<open>parameter.AllowableDelay\<close> are arguments. The positional comparison
  after the three branches is commented out in the source, so the function returns \<open>nil\<close>
  there.
\<close>

definition checkEventsList ::
  "duration \<Rightarrow> time \<Rightarrow> Event list \<Rightarrow> JsonEvent list \<Rightarrow> error option outcome" where
  "checkEventsList AllowableDelay now stateEvents events =
     (if \<not> SliceIsSorted (\<lambda>a b. JsonEvent.ID a < JsonEvent.ID b) events
      then Returns (Some (Fatal EventOrderWrong))
      else
        let expected = FilterPublicEvents stateEvents in
        if length events = 0 then Returns (Some (Fatal EventCountWrong))
        else if length events < length expected then
          (let missed = missedLoop expected (JsonEvent.ID (last events)) (length expected - 1) [];
               threshold = now - AllowableDelay
           in if list_ex (\<lambda>e. Before (CreatedAt e) threshold) missed
              then Returns (Some (Fatal EventCountWrong))
              else Returns None)
        else if length events > length expected then
          (case trimLoop expected events (length events - 1) of
             Panics p \<Rightarrow> Panics p
           | Returns trimmed \<Rightarrow> Returns None)
        else Returns None)"


text \<open>
  The longest run of events at the end of \<open>expected\<close> whose IDs are all greater than
  \<open>lastID\<close>: what the loop of the deficit branch collects when it may look at every index.
\<close>

definition newerTail :: "uint \<Rightarrow> Event list \<Rightarrow> Event list" where
  "newerTail lastID expected = rev (takeWhile (\<lambda>e. lastID < Event.ID e) (rev expected))"

section \<open>The ledger and the collaborators outside \<open>scenario.go\<close>\<close>

text \<open>A \<open>ReportRecord\<close> is one parsed row of the sales report.\<close>

record ReportRecord =
  ReservationID :: uint
  EventID :: uint
  SheetRank :: string
  SheetNum :: uint
  UserID :: uint
  CanceledAt :: time

record SheetKind =
  Rank :: string
  Price :: uint

record JsonError =
  Error :: string

record JsonUser =
  ID :: uint
  Nickname :: string

record JsonAdministrator =
  ID :: uint
  Nickname :: string

record JsonReservation =
  ReservationID :: uint
  SheetRank :: string
  SheetNum :: uint

text \<open>
  Modelled from the spec: the ledger (\<open>State\<close>) is declared in a file of the repository that
  is other than \<open>scenario.go\<close>. The spec gives it the events, the permanent set of
  reservations keyed by reservation ID, and the two pending logs, whose entries are recorded
  under a monotonic log ID. A log entry holds the pointer it was given, which may be \<open>nil\<close>
  (\<open>None\<close>).
\<close>

record State =
  stEvents :: "Event list"
  stReservations :: "uint \<rightharpoonup> Reservation"
  reserveLogID :: nat
  reserveLog :: "(nat \<times> Reservation option) list"
  cancelLogID :: nat
  cancelLog :: "(nat \<times> Reservation option) list"

text \<open>
  What \<open>scenario.go\<close> calls and does not define, as parameters: \<open>strconv.Atoi\<close>,
  \<open>time.Parse(time.RFC3339, _)\<close>, the JSON decoders (\<open>None\<close> is a decoding error; for the
  login user the inner \<open>None\<close> is the JSON \<open>null\<close>), the sheet kinds' table
  (\<open>GetSheetKindByRank\<close>, \<open>None\<close> for \<open>nil\<close>), the expected digest of the top page, the
  \<open>Canceled\<close> and \<open>MaybeCanceled\<close> methods of a reservation, and the two ledger operations
  that move a reservation to the canceled state.
\<close>

record externals =
  Atoi :: "string \<Rightarrow> int option"
  ParseRFC3339 :: "string \<Rightarrow> time option"
  GetSheetKindByRank :: "string \<Rightarrow> SheetKind option"
  Canceled :: "Reservation \<Rightarrow> time \<Rightarrow> bool"
  MaybeCanceled :: "Reservation \<Rightarrow> time \<Rightarrow> bool"
  DecodeJsonError :: "string \<Rightarrow> JsonError option"
  DecodeJsonUser :: "string \<Rightarrow> JsonUser option"
  DecodeJsonAdministrator :: "string \<Rightarrow> JsonAdministrator option"
  DecodeJsonReservation :: "string \<Rightarrow> JsonReservation option"
  DecodeEvents :: "string \<Rightarrow> JsonEvent list option"
  DecodeLoginUser :: "string \<Rightarrow> JsonUser option option"
  ExpectedIndexHash :: "32 word"
  BeginCancelReservation :: "State \<Rightarrow> uint \<Rightarrow> Reservation option \<times> State"
  CommitCancelReservation :: "State \<Rightarrow> Reservation option \<Rightarrow> State"

text \<open>
  Modelled from the spec: \<open>FindEventByID\<close> is the ledger's read-only lookup of an event by
  its ID, \<open>nil\<close> (\<open>None\<close>) when there is none.
\<close>

definition FindEventByID :: "State \<Rightarrow> uint \<Rightarrow> Event option" where
  "FindEventByID s eventID = find (\<lambda>e. Event.ID e = eventID) (stEvents s)"

section \<open>Report reconciliation: \<open>checkReportRecord\<close>\<close>

text \<open>The lines \<open>checkReportRecord\<close> writes with \<open>log.Printf\<close>; the number is the line.\<close>

datatype logline =
    DebugInvalidReservationID int
  | DebugInvalidEventID int
  | DebugInvalidSheetNum int
  | DebugInvalidPrice int
  | DebugInvalidUserID int
  | DebugInvalidSoldAt int
  | DebugInvalidCanceledAt int
  | DebugEventNotFound int int
  | DebugPriceNotExpected int uint int
  | DebugUnexpectedData int
  | DebugShouldHaveCanceledAt int
  | WarnShouldHaveCanceledAtIgnored int

text \<open>\<open>row[k]\<close>: Go panics when \<open>k\<close> is out of range.\<close>

definition index :: "string list \<Rightarrow> nat \<Rightarrow> string outcome" where
  "index row k = (if k < length row then Returns (row ! k) else Panics IndexOutOfRange)"

text \<open>
  The part of \<open>checkReportRecord\<close> after the record is built: the lookup in
  \<open>reservationsBeforeRequest\<close> and the comparison with the stored reservation. The result
  is the log lines written and the pair the function returns.
\<close>

definition checkKnownReservation ::
  "externals \<Rightarrow> int \<Rightarrow> time \<Rightarrow> (uint \<rightharpoonup> Reservation) \<Rightarrow> ReportRecord
   \<Rightarrow> logline list \<times> ReportRecord option \<times> error option" where
  "checkKnownReservation X line timeBefore reservationsBeforeRequest record =
     (case reservationsBeforeRequest (ReportRecord.ReservationID record) of
        None \<Rightarrow> ([], Some record, None)
      | Some reservationBeforeRequest \<Rightarrow>
          if Reservation.ID reservationBeforeRequest \<noteq> ReportRecord.ReservationID record \<or>
             Reservation.EventID reservationBeforeRequest \<noteq> ReportRecord.EventID record \<or>
             Reservation.UserID reservationBeforeRequest \<noteq> ReportRecord.UserID record \<or>
             Reservation.SheetRank reservationBeforeRequest \<noteq> ReportRecord.SheetRank record \<or>
             Reservation.SheetNum reservationBeforeRequest \<noteq> ReportRecord.SheetNum record
          then ([DebugUnexpectedData line], None, Some (Fatal WrongReport))
          else if Canceled X reservationBeforeRequest timeBefore then
            (if IsZero (CanceledAt record)
             then ([DebugShouldHaveCanceledAt line], None, Some (Fatal WrongReport))
             else ([], Some record, None))
          else if MaybeCanceled X reservationBeforeRequest timeBefore then
            (if IsZero (CanceledAt record)
             then ([WarnShouldHaveCanceledAtIgnored line], Some record, None)
             else ([], Some record, None))
          else ([], Some record, None))"

text \<open>
  The steps of \<open>checkReportRecord\<close> that either go on with a value or leave the function:
  reading \<open>row[k]\<close> (or panicking), and converting a field, where a failure writes a log
  line and returns the fatal error "the right report was not obtained".
\<close>

type_synonym recordResult = "(logline list \<times> ReportRecord option \<times> error option) outcome"

definition withIndex :: "string list \<Rightarrow> nat \<Rightarrow> (string \<Rightarrow> recordResult) \<Rightarrow> recordResult" where
  "withIndex row k cont = (case index row k of Panics p \<Rightarrow> Panics p | Returns r \<Rightarrow> cont r)"

definition orInvalid :: "'a option \<Rightarrow> logline \<Rightarrow> ('a \<Rightarrow> recordResult) \<Rightarrow> recordResult" where
  "orInvalid parsed l cont =
     (case parsed of None \<Rightarrow> Returns ([l], None, Some (Fatal WrongReport)) | Some v \<Rightarrow> cont v)"

text \<open>
  The event lookup and the price check:
  \<^verbatim>\<open>event := s.FindEventByID(uint(eventID))
  if event == nil { ... return nil, fatalErrorf(msg) }
  if expected := event.Price + GetSheetKindByRank(sheetRank).Price; uint(price) != expected { ... }\<close>
  An unknown rank makes \<open>GetSheetKindByRank\<close> return \<open>nil\<close>, whose \<open>Price\<close> is a nil
  dereference.
\<close>

definition checkEventAndPrice ::
  "externals \<Rightarrow> State \<Rightarrow> int \<Rightarrow> int \<Rightarrow> string \<Rightarrow> int \<Rightarrow> recordResult \<Rightarrow> recordResult" where
  "checkEventAndPrice X s line eventID sheetRank price cont =
     (case FindEventByID s (word_of_int eventID) of
        None \<Rightarrow> Returns ([DebugEventNotFound eventID line], None, Some (Fatal WrongReport))
      | Some event \<Rightarrow>
         (case GetSheetKindByRank X sheetRank of
            None \<Rightarrow> Panics NilDereference
          | Some kind \<Rightarrow>
              let expected = Event.Price event + SheetKind.Price kind in
              if word_of_int price \<noteq> expected
              then Returns ([DebugPriceNotExpected price expected line], None, Some (Fatal WrongReport))
              else cont))"

text \<open>
  \<open>checkReportRecord\<close>: \<open>row\<close> and \<open>rerr\<close> are what \<open>reader.Read()\<close> returned. Only
  \<open>io.EOF\<close> is looked at; with any other error the function goes on with the row it got.
  \<open>uint(x)\<close> of an \<open>int\<close> keeps the low 64 bits. An empty \<open>canceled_at\<close> leaves
  \<open>canceledAt\<close> the zero time. \<open>reservationsAfterResponse\<close> is a parameter the source
  never reads.
\<close>

definition checkReportRecord ::
  "externals \<Rightarrow> State \<Rightarrow> string list \<Rightarrow> error option \<Rightarrow> int \<Rightarrow> time
   \<Rightarrow> (uint \<rightharpoonup> Reservation) \<Rightarrow> (uint \<rightharpoonup> Reservation) \<Rightarrow> recordResult" where
  "checkReportRecord X s row rerr line timeBefore reservationsBeforeRequest reservationsAfterResponse =
   (if rerr = Some EOF then Returns ([], None, Some EOF) else
    withIndex row 0 (\<lambda>r0. orInvalid (Atoi X r0) (DebugInvalidReservationID line) (\<lambda>reservationID.
    withIndex row 1 (\<lambda>r1. orInvalid (Atoi X r1) (DebugInvalidEventID line) (\<lambda>eventID.
    withIndex row 2 (\<lambda>sheetRank.
    withIndex row 3 (\<lambda>r3. orInvalid (Atoi X r3) (DebugInvalidSheetNum line) (\<lambda>sheetNum.
    withIndex row 4 (\<lambda>r4. orInvalid (Atoi X r4) (DebugInvalidPrice line) (\<lambda>price.
    withIndex row 5 (\<lambda>r5. orInvalid (Atoi X r5) (DebugInvalidUserID line) (\<lambda>userID.
    withIndex row 6 (\<lambda>r6. orInvalid (ParseRFC3339 X r6) (DebugInvalidSoldAt line) (\<lambda>soldAt.
    withIndex row 7 (\<lambda>r7.
      orInvalid (if r7 \<noteq> [] then ParseRFC3339 X r7 else Some 0) (DebugInvalidCanceledAt line)
      (\<lambda>canceledAt.
    checkEventAndPrice X s line eventID sheetRank price
      (Returns (checkKnownReservation X line timeBefore reservationsBeforeRequest
        \<lparr>ReportRecord.ReservationID = word_of_int reservationID,
         ReportRecord.EventID = word_of_int eventID,
         ReportRecord.SheetRank = sheetRank,
         ReportRecord.SheetNum = word_of_int sheetNum,
         ReportRecord.UserID = word_of_int userID,
         ReportRecord.CanceledAt = canceledAt\<rparr>))))))))))))))))))"

section \<open>The action player and the actors\<close>

record Status =
  Online :: bool

record AppUser =
  ID :: uint
  Nickname :: string
  LoginName :: string
  Password :: string
  Status :: Status

record Administrator =
  ID :: uint
  Nickname :: string
  LoginName :: string
  Password :: string
  Status :: Status

record EventSheet =
  EventID :: uint
  Rank :: string
  Num :: uint

text \<open>
  Modelled from the spec: \<open>Checker\<close>, \<open>CheckAction\<close> and \<open>Play\<close> are declared in a file of
  the repository other than \<open>scenario.go\<close>. A checker is the player bound to one
  actor, with its own cookie store; here it is a name. The world outside the benchmarker is
  the list of what the service will answer to the next requests. What the benchmarker does is
  recorded in one trace, in the order in which it happens: the requests sent, the resets of a
  cookie store, and the entries put into and taken out of the pending logs of the ledger. A
  request stands in the trace at the place of its call of \<open>Play\<close>, which returns with the
  answer before anything else is recorded.
\<close>

type_synonym Checker = nat

datatype pendingLog = ReserveLog | CancelLog

datatype action =
    Request Checker string string "(string \<times> string) list"
  | CookieReset Checker
  | LogAppended pendingLog nat "Reservation option"
  | LogDeleted pendingLog nat

datatype reply = NetworkFailure | Response int string

record World =
  trace :: "action list"
  replies :: "reply list"

text \<open>
  The check function of an action is a closure; \<open>'c\<close> is the variable it captures and may
  assign (the \<open>reserved\<close> of \<open>checkJsonReservationResponse\<close>), threaded through the call.
\<close>

record 'c CheckAction =
  Method :: string
  Path :: string
  ExpectedStatusCode :: int
  PostJSON :: "(string \<times> string) list"
  CheckFunc :: "(int \<Rightarrow> string \<Rightarrow> 'c \<Rightarrow> error option \<times> 'c) option"
  Timeout :: duration

text \<open>
  Modelled from the spec: the action player. \<open>Play\<close> issues the request; a failure of the
  network (a timeout, a reset connection, here also: no answer left) is a fatal error; so is a
  status code other than \<open>ExpectedStatusCode\<close> when that is set (not 0); otherwise the check
  function, when there is one, decides, and its error is the call's result.
\<close>

definition Play :: "World \<Rightarrow> Checker \<Rightarrow> 'c CheckAction \<Rightarrow> 'c \<Rightarrow> error option \<times> 'c \<times> World" where
  "Play w checker a c =
     (let w' = w\<lparr>trace := trace w @ [Request checker (Method a) (Path a) (PostJSON a)]\<rparr>
      in case replies w of
           [] \<Rightarrow> (Some (Fatal RequestFailed), c, w')
         | r # rest \<Rightarrow>
            (case r of
               NetworkFailure \<Rightarrow> (Some (Fatal RequestFailed), c, w'\<lparr>replies := rest\<rparr>)
             | Response status body \<Rightarrow>
                 if ExpectedStatusCode a \<noteq> 0 \<and> status \<noteq> ExpectedStatusCode a
                 then (Some (Fatal UnexpectedStatusCode), c, w'\<lparr>replies := rest\<rparr>)
                 else (case CheckFunc a of
                         None \<Rightarrow> (None, c, w'\<lparr>replies := rest\<rparr>)
                       | Some f \<Rightarrow> (case f status body c of
                                     (err, c') \<Rightarrow> (err, c', w'\<lparr>replies := rest\<rparr>)))))"


text \<open>A check function that assigns nothing.\<close>

definition readOnly :: "(int \<Rightarrow> string \<Rightarrow> error option) \<Rightarrow> int \<Rightarrow> string \<Rightarrow> unit \<Rightarrow> error option \<times> unit" where
  "readOnly f status body c = (f status body, c)"

text \<open>\<open>%d\<close> of \<open>fmt.Sprintf\<close> for an unsigned number.\<close>

function fmtNat :: "nat \<Rightarrow> string" where
  "fmtNat n = (if n < 10 then [''0123456789'' ! n]
               else fmtNat (n div 10) @ [''0123456789'' ! (n mod 10)])"
  by pat_completeness auto
termination
  by (relation "measure (\<lambda>n. n)") auto

definition fmtUint :: "uint \<Rightarrow> string" where
  "fmtUint n = fmtNat (unat n)"

subsection \<open>Checks of JSON responses\<close>




definition checkJsonAdministratorResponse ::
  "externals \<Rightarrow> Administrator \<Rightarrow> int \<Rightarrow> string \<Rightarrow> error option" where
  "checkJsonAdministratorResponse X admin status body =
     (case DecodeJsonAdministrator X body of
        None \<Rightarrow> Some (Fatal JsonDecodeFailed)
      | Some jsonAdmin \<Rightarrow>
          if JsonAdministrator.ID jsonAdmin \<noteq> Administrator.ID admin \<or>
             JsonAdministrator.Nickname jsonAdmin \<noteq> Administrator.Nickname admin
          then Some (Fatal WrongAdminInfo) else None)"

text \<open>On success the closure sets the reservation ID and the sheet number of \<open>reserved\<close>.\<close>

definition checkJsonReservationResponse ::
  "externals \<Rightarrow> int \<Rightarrow> string \<Rightarrow> JsonReservation \<Rightarrow> error option \<times> JsonReservation" where
  "checkJsonReservationResponse X status body reserved =
     (case DecodeJsonReservation X body of
        None \<Rightarrow> (Some (Fatal JsonDecodeFailed), reserved)
      | Some resReserved \<Rightarrow>
          if JsonReservation.SheetRank resReserved \<noteq> JsonReservation.SheetRank reserved
          then (Some (Fatal WrongReservationInfo), reserved)
          else (None, reserved\<lparr>JsonReservation.ReservationID := JsonReservation.ReservationID resReserved,
                                JsonReservation.SheetNum := JsonReservation.SheetNum resReserved\<rparr>))"

subsection \<open>Login and logout\<close>


definition setAdminOnline :: "Administrator \<Rightarrow> bool \<Rightarrow> Administrator" where
  "setAdminOnline admin b = admin\<lparr>Administrator.Status := (Administrator.Status admin)\<lparr>Online := b\<rparr>\<rparr>"



definition loginAdministratorWithTimeout ::
  "externals \<Rightarrow> World \<Rightarrow> Checker \<Rightarrow> Administrator \<Rightarrow> duration
   \<Rightarrow> error option \<times> World \<times> Administrator" where
  "loginAdministratorWithTimeout X w checker admin timeout =
     (if Online (Administrator.Status admin) then (None, w, admin)
      else case Play w checker
             \<lparr>Method = ''POST'', Path = ''/admin/api/actions/login'', ExpectedStatusCode = 200,
              PostJSON = [(''login_name'', Administrator.LoginName admin),
                          (''password'', Administrator.Password admin)],
              CheckFunc = Some (readOnly (checkJsonAdministratorResponse X admin)),
              Timeout = timeout\<rparr> () of
           (err, _, w') \<Rightarrow>
             if err \<noteq> None then (err, w', admin)
             else (None, w', setAdminOnline admin True))"



subsection \<open>The login scenarios\<close>



subsection \<open>The scenarios that create a user\<close>



subsection \<open>Reserving and canceling a sheet\<close>

text \<open>
  Modelled from the spec: the pending logs of the ledger. \<open>AppendReserveLog\<close> and
  \<open>AppendCancelLog\<close> record the reservation under the next log ID and return that ID;
  \<open>DeleteReserveLog\<close> and \<open>DeleteCancelLog\<close> remove the entry with the given log ID.
  Each of the four writes what it does into the trace. \<open>CommitReservation\<close> merges the
  reservation into the permanent set under its ID (the spec requires the ID to be new and does
  not say what happens otherwise; the model stores the reservation). \<open>NonReservedNum\<close> is
  the sentinel 0.
\<close>

definition AppendReserveLog :: "State \<Rightarrow> World \<Rightarrow> Reservation option \<Rightarrow> nat \<times> State \<times> World" where
  "AppendReserveLog s w reservation =
     (let logID = reserveLogID s + 1
      in (logID,
          s\<lparr>reserveLogID := logID, reserveLog := reserveLog s @ [(logID, reservation)]\<rparr>,
          w\<lparr>trace := trace w @ [LogAppended ReserveLog logID reservation]\<rparr>))"

definition DeleteReserveLog :: "State \<Rightarrow> World \<Rightarrow> nat \<Rightarrow> Reservation option \<Rightarrow> State \<times> World" where
  "DeleteReserveLog s w logID reservation =
     (s\<lparr>reserveLog := filter (\<lambda>entry. fst entry \<noteq> logID) (reserveLog s)\<rparr>,
      w\<lparr>trace := trace w @ [LogDeleted ReserveLog logID]\<rparr>)"

definition AppendCancelLog :: "State \<Rightarrow> World \<Rightarrow> Reservation option \<Rightarrow> nat \<times> State \<times> World" where
  "AppendCancelLog s w reservation =
     (let logID = cancelLogID s + 1
      in (logID,
          s\<lparr>cancelLogID := logID, cancelLog := cancelLog s @ [(logID, reservation)]\<rparr>,
          w\<lparr>trace := trace w @ [LogAppended CancelLog logID reservation]\<rparr>))"

definition DeleteCancelLog :: "State \<Rightarrow> World \<Rightarrow> nat \<Rightarrow> Reservation option \<Rightarrow> State \<times> World" where
  "DeleteCancelLog s w logID reservation =
     (s\<lparr>cancelLog := filter (\<lambda>entry. fst entry \<noteq> logID) (cancelLog s)\<rparr>,
      w\<lparr>trace := trace w @ [LogDeleted CancelLog logID]\<rparr>)"

definition CommitReservation :: "State \<Rightarrow> Reservation \<Rightarrow> State" where
  "CommitReservation s reservation =
     s\<lparr>stReservations := (stReservations s)(Reservation.ID reservation \<mapsto> reservation)\<rparr>"

definition NonReservedNum :: uint where
  "NonReservedNum = 0"

text \<open>
  \<open>event.Remains--\<close> and \<open>event.Remains++\<close> on the event \<open>FindEventByID\<close> returned: the
  first event of the ledger with that ID.
\<close>

fun addRemains :: "uint \<Rightarrow> int \<Rightarrow> Event list \<Rightarrow> Event list" where
  "addRemains eventID d [] = []"
| "addRemains eventID d (e # es) =
     (if Event.ID e = eventID then e\<lparr>Remains := Remains e + d\<rparr> # es
      else e # addRemains eventID d es)"

text \<open>
  \<open>reserveSheet\<close>. The result is what the function returns (the reservation of the response
  and the error) and what it leaves behind: the ledger, the world and the event sheet.
\<close>

definition reserveSheet ::
  "externals \<Rightarrow> State \<Rightarrow> World \<Rightarrow> Checker \<Rightarrow> uint \<Rightarrow> EventSheet
   \<Rightarrow> (JsonReservation option \<times> error option \<times> State \<times> World \<times> EventSheet) outcome" where
  "reserveSheet X s w checker userID eventSheet =
     (let eventID = EventSheet.EventID eventSheet;
          rank = EventSheet.Rank eventSheet;
          reserved0 = \<lparr>JsonReservation.ReservationID = 0, JsonReservation.SheetRank = rank,
                       JsonReservation.SheetNum = 0\<rparr>;
          reservation0 = \<lparr>Reservation.ID = 0, Reservation.EventID = eventID,
                          Reservation.UserID = userID, Reservation.SheetRank = rank,
                          Reservation.SheetNum = 0, Reservation.CreatedAt = 0,
                          Reservation.CanceledAt = 0\<rparr>
      in case AppendReserveLog s w (Some reservation0) of (logID, s1, w1) \<Rightarrow>
         case Play w1 checker
                \<lparr>Method = ''POST'', Path = ''/api/events/'' @ fmtUint eventID @ ''/actions/reserve'',
                 ExpectedStatusCode = 202, PostJSON = [(''sheet_rank'', rank)],
                 CheckFunc = Some (checkJsonReservationResponse X), Timeout = 0\<rparr> reserved0 of
           (err, reserved, w2) \<Rightarrow>
         if err \<noteq> None then Returns (None, err, s1, w2, eventSheet)
         else
           let reservation = reservation0\<lparr>Reservation.ID := JsonReservation.ReservationID reserved,
                                           Reservation.SheetNum := JsonReservation.SheetNum reserved\<rparr>
           in case DeleteReserveLog s1 w2 logID (Some reservation) of (s2, w3) \<Rightarrow>
              let eventSheet' = eventSheet\<lparr>EventSheet.Num := JsonReservation.SheetNum reserved\<rparr>;
                  s3 = CommitReservation s2 reservation
              in case FindEventByID s3 eventID of
                   None \<Rightarrow> Panics AssertFailed
                 | Some event \<Rightarrow>
                     Returns (Some reserved, None,
                              s3\<lparr>stEvents := addRemains eventID (- 1) (stEvents s3)\<rparr>, w3, eventSheet'))"

text \<open>\<open>cancelSheet\<close>; \<open>userID\<close> is a parameter the source never reads.\<close>

definition cancelSheet ::
  "externals \<Rightarrow> State \<Rightarrow> World \<Rightarrow> Checker \<Rightarrow> uint \<Rightarrow> EventSheet \<Rightarrow> JsonReservation
   \<Rightarrow> (error option \<times> State \<times> World \<times> EventSheet) outcome" where
  "cancelSheet X s w checker userID eventSheet reserved =
     (let eventID = EventSheet.EventID eventSheet;
          rank = EventSheet.Rank eventSheet;
          reservationID = JsonReservation.ReservationID reserved;
          sheetNum = JsonReservation.SheetNum reserved
      in case BeginCancelReservation X s reservationID of (reservation, s0) \<Rightarrow>
         case AppendCancelLog s0 w reservation of (logID, s1, w1) \<Rightarrow>
         case Play w1 checker
                \<lparr>Method = ''DELETE'',
                 Path = ''/api/events/'' @ fmtUint eventID @ ''/sheets/'' @ rank @ ''/''
                        @ fmtUint sheetNum @ ''/reservation'',
                 ExpectedStatusCode = 204, PostJSON = [], CheckFunc = None, Timeout = 0\<rparr> () of
           (err, _, w2) \<Rightarrow>
         if err \<noteq> None then Returns (err, s1, w2, eventSheet)
         else
           let s2 = CommitCancelReservation X s1 reservation
           in case DeleteCancelLog s2 w2 logID reservation of (s3, w3) \<Rightarrow>
              let eventSheet' = eventSheet\<lparr>EventSheet.Num := NonReservedNum\<rparr>
              in case FindEventByID s3 eventID of
                   None \<Rightarrow> Panics AssertFailed
                 | Some event \<Rightarrow>
                     Returns (None, s3\<lparr>stEvents := addRemains eventID 1 (stEvents s3)\<rparr>, w3, eventSheet'))"

subsection \<open>The verifier of the top page\<close>

text \<open>
  What the verifier of \<open>CheckTopPage\<close> reads of the parsed page: the checksum of the root
  node (\<open>JoinCrc32\<close> of the digest; \<open>None\<close> when the digest fails) and the nodes selected by
  \<open>#app-wrapper\<close>, each with its attributes in document order.
\<close>

record Attribute =
  Key :: string
  Val :: string

record Document =
  Crc :: "32 word option"
  AppWrapper :: "Attribute list list"

text \<open>
  The loop over the attributes of the first selected node, with the counter \<open>found\<close>, and
  the test \<open>found != 2\<close> after it.
\<close>

fun attrLoop ::
  "externals \<Rightarrow> duration \<Rightarrow> time \<Rightarrow> Event list \<Rightarrow> AppUser \<Rightarrow> Attribute list \<Rightarrow> int
   \<Rightarrow> error option outcome" where
  "attrLoop X AllowableDelay now stateEvents user [] found =
     (if found \<noteq> 2 then Returns (Some (Fatal AttrsMissing)) else Returns None)"
| "attrLoop X AllowableDelay now stateEvents user (attr # rest) found =
     (if Key attr = ''data-events'' then
        (case DecodeEvents X (Val attr) of
           None \<Rightarrow> Returns (Some (Fatal EventsDecodeFailed))
         | Some events \<Rightarrow>
            (case checkEventsList AllowableDelay now stateEvents events of
               Panics p \<Rightarrow> Panics p
             | Returns err \<Rightarrow>
                 if err \<noteq> None then Returns err
                 else attrLoop X AllowableDelay now stateEvents user rest (found + 1)))
      else if Key attr = ''data-login-user'' then
        (if Online (AppUser.Status user) then
           (case DecodeLoginUser X (Val attr) of
              None \<Rightarrow> Returns (Some (Fatal LoginUserDecodeFailed))
            | Some None \<Rightarrow> Returns (Some (Fatal LoginUserIsNull))
            | Some (Some u) \<Rightarrow>
                if JsonUser.ID u \<noteq> AppUser.ID user \<or> JsonUser.Nickname u \<noteq> AppUser.Nickname user
                then Returns (Some (Fatal LoginUserDiffers))
                else attrLoop X AllowableDelay now stateEvents user rest (found + 1))
         else if Val attr \<noteq> ''null'' then Returns (Some (Fatal LoginUserNotNull))
         else attrLoop X AllowableDelay now stateEvents user rest (found + 1))
      else attrLoop X AllowableDelay now stateEvents user rest found)"

text \<open>The check function \<open>CheckTopPage\<close> passes to \<open>checkHTML\<close>, applied to the parsed page.\<close>

definition checkTopPage ::
  "externals \<Rightarrow> duration \<Rightarrow> time \<Rightarrow> Event list \<Rightarrow> AppUser \<Rightarrow> Document \<Rightarrow> error option outcome" where
  "checkTopPage X AllowableDelay now stateEvents user doc =
     (case Crc doc of
        None \<Rightarrow> Returns (Some (Fatal ChecksumFailed))
      | Some crcSum32 \<Rightarrow>
          if crcSum32 \<noteq> ExpectedIndexHash X then Returns (Some (Fatal DomMismatch))
          else (case AppWrapper doc of
                  [] \<Rightarrow> Returns (Some (Fatal WrapperNotFound))
                | node # _ \<Rightarrow> attrLoop X AllowableDelay now stateEvents user node 0))"

section \<open>Concrete inputs for the examples\<close>

text \<open>A public event with the given ID and creation time, and an observed event.\<close>

definition ev :: "uint \<Rightarrow> time \<Rightarrow> Event" where
  "ev i t = \<lparr>Event.ID = i, Title = ''e'', Price = 1000, PublicFg = True, ClosedFg = False, Remains = 1000, CreatedAt = t\<rparr>"
definition jev :: "uint \<Rightarrow> JsonEvent" where
  "jev i = \<lparr>JsonEvent.ID = i, Title = ''e''\<rparr>"


text \<open>
  \<open>strconv.Atoi\<close> on a 64-bit target: an optional sign, then one or more decimal digits, and
  a value that fits a signed 64-bit integer.
\<close>

definition digitOf :: "char \<Rightarrow> nat option" where
  "digitOf c = (let n = (of_char c :: nat) in if 48 \<le> n \<and> n \<le> 57 then Some (n - 48) else None)"

fun digits :: "string \<Rightarrow> nat \<Rightarrow> nat option" where
  "digits [] acc = Some acc"
| "digits (c # cs) acc = (case digitOf c of None \<Rightarrow> None | Some d \<Rightarrow> digits cs (10 * acc + d))"

definition decimalAtoi :: "string \<Rightarrow> int option" where
  "decimalAtoi str =
     (let neg = (str \<noteq> [] \<and> hd str = CHR ''-'');
          ds = (if str \<noteq> [] \<and> (hd str = CHR ''-'' \<or> hd str = CHR ''+'') then tl str else str)
      in if ds = [] then None
         else case digits ds 0 of
                None \<Rightarrow> None
              | Some n \<Rightarrow>
                  let v = (if neg then - int n else int n)
                  in if - (2 ^ 63) \<le> v \<and> v < 2 ^ 63 then Some v else None)"

text \<open>
  The values of \<open>time.Parse(time.RFC3339, _)\<close> at the two timestamps of the examples, in
  nanoseconds since the zero time; no other string is parsed in the examples.
\<close>

definition sampleParse :: "string \<Rightarrow> time option" where
  "sampleParse str =
     (if str = ''2018-08-17T04:55:30Z'' then Some 63670078530000000000
      else if str = ''2018-08-17T04:58:31Z'' then Some 63670078711000000000
      else None)"

text \<open>The sheet kinds of the examples: ranks S, A, B and C.\<close>

definition sampleSheetKind :: "string \<Rightarrow> SheetKind option" where
  "sampleSheetKind rank =
     (if rank = ''S'' then Some \<lparr>SheetKind.Rank = ''S'', SheetKind.Price = 5000\<rparr>
      else if rank = ''A'' then Some \<lparr>SheetKind.Rank = ''A'', SheetKind.Price = 3000\<rparr>
      else if rank = ''B'' then Some \<lparr>SheetKind.Rank = ''B'', SheetKind.Price = 1000\<rparr>
      else if rank = ''C'' then Some \<lparr>SheetKind.Rank = ''C'', SheetKind.Price = 0\<rparr>
      else None)"

text \<open>
  JSON decoders for the bodies of the examples: the error envelope, the user and the
  administrator with ID 1002 and nickname alice, a reservation of seat S 36, and the login
  user attribute of the top page.
\<close>

definition sampleDecodeError :: "string \<Rightarrow> JsonError option" where
  \<open>sampleDecodeError body =
     (if body = ''{"error":"login_required"}'' then Some \<lparr>Error = ''login_required''\<rparr>
      else if body = ''{"error":"authentication_failed"}'' then Some \<lparr>Error = ''authentication_failed''\<rparr>
      else if body = ''{"error":"admin_login_required"}'' then Some \<lparr>Error = ''admin_login_required''\<rparr>
      else None)\<close>

definition sampleDecodeUser :: "string \<Rightarrow> JsonUser option" where
  \<open>sampleDecodeUser body =
     (if body = ''{"id":1002,"nickname":"alice"}''
      then Some \<lparr>JsonUser.ID = 1002, JsonUser.Nickname = ''alice''\<rparr> else None)\<close>

definition sampleDecodeAdministrator :: "string \<Rightarrow> JsonAdministrator option" where
  \<open>sampleDecodeAdministrator body =
     (if body = ''{"id":1002,"nickname":"alice"}''
      then Some \<lparr>JsonAdministrator.ID = 1002, JsonAdministrator.Nickname = ''alice''\<rparr> else None)\<close>

definition sampleDecodeReservation :: "string \<Rightarrow> JsonReservation option" where
  \<open>sampleDecodeReservation body =
     (if body = ''{"reservation_id":7,"sheet_rank":"S","sheet_num":36}''
      then Some \<lparr>JsonReservation.ReservationID = 7, JsonReservation.SheetRank = ''S'',
                 JsonReservation.SheetNum = 36\<rparr>
      else None)\<close>

definition sampleDecodeEvents :: "string \<Rightarrow> JsonEvent list option" where
  \<open>sampleDecodeEvents val =
     (if val = ''[{"id":1,"title":"e"}]'' then Some [jev 1] else None)\<close>

definition sampleDecodeLoginUser :: "string \<Rightarrow> JsonUser option option" where
  \<open>sampleDecodeLoginUser val =
     (if val = ''null'' then Some None
      else if val = ''{"id":1002,"nickname":"alice"}''
      then Some (Some \<lparr>JsonUser.ID = 1002, JsonUser.Nickname = ''alice''\<rparr>)
      else None)\<close>

text \<open>
  The collaborators of the examples. The two predicates on a reservation are arguments; the
  sample ledger hands out the stored reservation and keeps no cancellation stamp.
\<close>

definition sampleExternals ::
  "(Reservation \<Rightarrow> time \<Rightarrow> bool) \<Rightarrow> (Reservation \<Rightarrow> time \<Rightarrow> bool) \<Rightarrow> externals" where
  "sampleExternals canceled maybeCanceled =
     \<lparr>Atoi = decimalAtoi, ParseRFC3339 = sampleParse, GetSheetKindByRank = sampleSheetKind,
      Canceled = canceled, MaybeCanceled = maybeCanceled,
      DecodeJsonError = sampleDecodeError, DecodeJsonUser = sampleDecodeUser,
      DecodeJsonAdministrator = sampleDecodeAdministrator,
      DecodeJsonReservation = sampleDecodeReservation,
      DecodeEvents = sampleDecodeEvents, DecodeLoginUser = sampleDecodeLoginUser,
      ExpectedIndexHash = 3993546060,
      BeginCancelReservation = (\<lambda>s reservationID. (stReservations s reservationID, s)),
      CommitCancelReservation = (\<lambda>s reservation. s)\<rparr>"

text \<open>
  A ledger with one public event (ID 1, price 3000) and the reservation 1 of seat S 36 by user
  1002, created at 2018-08-17T04:55:30Z and not canceled, and the row of the sales report for
  it.
\<close>

definition sampleReservation :: Reservation where
  "sampleReservation = \<lparr>Reservation.ID = 1, Reservation.EventID = 1, Reservation.UserID = 1002,
     Reservation.SheetRank = ''S'', Reservation.SheetNum = 36,
     Reservation.CreatedAt = 63670078530000000000, Reservation.CanceledAt = 0\<rparr>"

definition sampleState :: State where
  "sampleState = \<lparr>stEvents = [\<lparr>Event.ID = 1, Title = ''e'', Price = 3000, PublicFg = True,
        ClosedFg = False, Remains = 999, CreatedAt = 63670078000000000000\<rparr>],
     stReservations = [1 \<mapsto> sampleReservation],
     reserveLogID = 0, reserveLog = [], cancelLogID = 0, cancelLog = []\<rparr>"

definition sampleRow :: "string list" where
  "sampleRow = [''1'', ''1'', ''S'', ''36'', ''8000'', ''1002'', ''2018-08-17T04:55:30Z'', '''']"

text \<open>
  The user and the administrator of the examples, offline, the checker 7, and the body the
  service answers to their logins.
\<close>

definition sampleUser :: AppUser where
  "sampleUser = \<lparr>AppUser.ID = 1002, AppUser.Nickname = ''alice'', AppUser.LoginName = ''alice_login'',
     AppUser.Password = ''secret'', AppUser.Status = \<lparr>Online = False\<rparr>\<rparr>"

definition sampleAdmin :: Administrator where
  "sampleAdmin = \<lparr>Administrator.ID = 1002, Administrator.Nickname = ''alice'',
     Administrator.LoginName = ''alice_login'', Administrator.Password = ''secret'',
     Administrator.Status = \<lparr>Online = False\<rparr>\<rparr>"

definition sampleBody :: string where
  \<open>sampleBody = ''{"id":1002,"nickname":"alice"}''\<close>



definition sampleAdminLoginRequest :: action where
  "sampleAdminLoginRequest = Request 7 ''POST'' ''/admin/api/actions/login''
     [(''login_name'', ''alice_login''), (''password'', ''secret'')]"

text \<open>The collaborators of the examples when no reservation is canceled.\<close>

definition sampleX :: externals where
  "sampleX = sampleExternals (\<lambda>r t. False) (\<lambda>r t. False)"

text \<open>
  The sheet of rank S of event 1, the reservation \<open>reserveSheet\<close> logs for user 1002 on
  it, and the reservation of seat 36 as the response of the service gives it.
\<close>

definition sampleSheet :: EventSheet where
  "sampleSheet = \<lparr>EventSheet.EventID = 1, EventSheet.Rank = ''S'', EventSheet.Num = 0\<rparr>"

definition samplePending :: Reservation where
  "samplePending = \<lparr>Reservation.ID = 0, Reservation.EventID = 1, Reservation.UserID = 1002,
     Reservation.SheetRank = ''S'', Reservation.SheetNum = 0,
     Reservation.CreatedAt = 0, Reservation.CanceledAt = 0\<rparr>"

definition sampleReserved :: JsonReservation where
  "sampleReserved = \<lparr>JsonReservation.ReservationID = 1, JsonReservation.SheetRank = ''S'',
     JsonReservation.SheetNum = 36\<rparr>"

text \<open>
  An \<open>app-wrapper\<close> node that carries \<open>data-login-user\<close> twice and \<open>data-events\<close> not
  at all, in a page whose checksum is the expected one.
\<close>

definition sampleDuplicatePage :: Document where
  "sampleDuplicatePage =
     \<lparr>Crc = Some 3993546060,
      AppWrapper = [[\<lparr>Key = ''id'', Val = ''app-wrapper''\<rparr>,
                     \<lparr>Key = ''data-login-user'', Val = ''null''\<rparr>,
                     \<lparr>Key = ''data-login-user'', Val = ''null''\<rparr>]]\<rparr>"

text \<open>The same page with \<open>data-login-user\<close> once and still no \<open>data-events\<close>.\<close>

definition sampleMissingPage :: Document where
  "sampleMissingPage =
     \<lparr>Crc = Some 3993546060,
      AppWrapper = [[\<lparr>Key = ''id'', Val = ''app-wrapper''\<rparr>,
                     \<lparr>Key = ''data-login-user'', Val = ''null''\<rparr>]]\<rparr>"

text \<open>A page that carries both attributes once.\<close>

definition samplePage :: Document where
  \<open>samplePage =
     \<lparr>Crc = Some 3993546060,
      AppWrapper = [[\<lparr>Key = ''id'', Val = ''app-wrapper''\<rparr>,
                     \<lparr>Key = ''data-events'', Val = ''[{"id":1,"title":"e"}]''\<rparr>,
                     \<lparr>Key = ''data-login-user'', Val = ''null''\<rparr>]]\<rparr>\<close>

section \<open>Claims about \<open>checkEventsList\<close>\<close>

subsection \<open>The sortedness test and the two loops\<close>

text \<open>The test of \<open>sort.SliceIsSorted\<close> is that the IDs do not decrease.\<close>

lemma SliceIsSorted_sorted:
  fixes f :: "'a \<Rightarrow> 'b::linorder"
  shows "SliceIsSorted (\<lambda>a b. f a < f b) xs = sorted (map f xs)"
proof (induction xs rule: induct_list012)
  case (3 x y zs)
  then show ?case by (auto simp add: not_less intro: order_trans)
qed simp_all

lemma takeWhile_rev_drop:
  assumes "n < length xs" "\<forall>e\<in>set (drop (Suc n) xs). P e" "\<not> P (xs ! n)" and that: "k \<le> n"
  shows "rev (takeWhile P (rev (drop k xs))) = drop (Suc n) xs"
proof -
  have "drop k xs = take (n - k) (drop k xs) @ (xs ! n) # drop (Suc n) xs"
    using assms that
    by (metis Cons_nth_drop_Suc append_take_drop_id drop_drop le_add_diff_inverse2)
  then have "rev (drop k xs) = rev (drop (Suc n) xs) @ (xs ! n) # rev (take (n - k) (drop k xs))"
    by (metis rev.simps(2) rev_append append.assoc append_Cons append_Nil)
  then have "takeWhile P (rev (drop k xs)) = rev (drop (Suc n) xs)"
    using assms by (simp add: takeWhile_tail)
  then show ?thesis by simp
qed

lemma missedLoop_tail:
  "n < length xs \<Longrightarrow> \<forall>e\<in>set (drop (Suc n) xs). lastID < Event.ID e \<Longrightarrow>
   missedLoop xs lastID n (drop (Suc n) xs) = newerTail lastID (drop 1 xs)"
proof (induction n)
  case 0
  then have "takeWhile (\<lambda>e. lastID < Event.ID e) (rev (drop (Suc 0) xs)) = rev (drop (Suc 0) xs)"
    by (simp add: takeWhile_eq_all_conv)
  then have "rev (takeWhile (\<lambda>e. lastID < Event.ID e) (rev (drop (Suc 0) xs))) = drop (Suc 0) xs"
    by (simp only: rev_rev_ident)
  then show ?case by (simp only: newerTail_def missedLoop.simps One_nat_def)
next
  case (Suc n)
  show ?case
  proof (cases "Event.ID (xs ! Suc n) \<le> lastID")
    case True
    then have "\<not> lastID < Event.ID (xs ! Suc n)" by simp
    from takeWhile_rev_drop[OF Suc.prems(1) Suc.prems(2) this, of 1] True
    show ?thesis by (simp add: newerTail_def)
  next
    case False
    have "drop (Suc n) xs = xs ! Suc n # drop (Suc (Suc n)) xs"
      using Suc.prems(1) by (simp add: Cons_nth_drop_Suc)
    with False Suc.prems have "\<forall>e\<in>set (drop (Suc n) xs). lastID < Event.ID e" by simp
    with Suc.IH Suc.prems(1) False show ?thesis by simp
  qed
qed


lemma newerTail_drop1:
  assumes "xs \<noteq> []" "Event.ID (hd xs) \<le> lastID"
  shows "newerTail lastID (drop 1 xs) = newerTail lastID xs"
proof -
  obtain x ys where xs: "xs = x # ys" using assms(1) by (cases xs) auto
  with assms(2) have "\<not> lastID < Event.ID x" by simp
  then have "takeWhile (\<lambda>e. lastID < Event.ID e) (rev ys @ [x]) = takeWhile (\<lambda>e. lastID < Event.ID e) (rev ys)"
    by (simp add: takeWhile_tail)
  then show ?thesis by (simp add: newerTail_def xs)
qed

lemma trimLoop_take:
  assumes "expected \<noteq> []"
  shows "n < length events \<Longrightarrow>
    \<exists>k. 0 < k \<and> k \<le> Suc n \<and> trimLoop expected (take (Suc n) events) n = Returns (take k events)
       \<and> (\<forall>e\<in>set (drop k (take (Suc n) events)). Event.ID (last expected) < JsonEvent.ID e)
       \<and> (1 < k \<longrightarrow> JsonEvent.ID (events ! (k - 1)) \<le> Event.ID (last expected))"
proof (induction n)
  case 0
  then show ?case by (intro exI[of _ 1]) simp
next
  case (Suc n)
  show ?case
  proof (cases "JsonEvent.ID (events ! Suc n) \<le> Event.ID (last expected)")
    case True
    with assms Suc.prems show ?thesis by (intro exI[of _ "Suc (Suc n)"]) simp
  next
    case False
    from Suc obtain k where k: "0 < k" "k \<le> Suc n"
      "trimLoop expected (take (Suc n) events) n = Returns (take k events)"
      "\<forall>e\<in>set (drop k (take (Suc n) events)). Event.ID (last expected) < JsonEvent.ID e"
      "1 < k \<longrightarrow> JsonEvent.ID (events ! (k - 1)) \<le> Event.ID (last expected)"
      by auto
    have tk: "take (Suc (Suc n)) events = take (Suc n) events @ [events ! Suc n]"
      using Suc.prems by (simp add: take_Suc_conv_app_nth)
    have "trimLoop expected (take (Suc (Suc n)) events) (Suc n) = trimLoop expected (take (Suc n) events) n"
      using assms False Suc.prems by (simp add: min_def)
    moreover have "\<forall>e\<in>set (drop k (take (Suc (Suc n)) events)). Event.ID (last expected) < JsonEvent.ID e"
      using k(2,4) False Suc.prems unfolding tk by auto
    ultimately show ?thesis using k by (intro exI[of _ k]) simp
  qed
qed


text \<open>
  C9: called with an empty observed list, \<open>checkEventsList\<close> returns the fatal error
  "the number of the events is not correct", whatever the ledger, the clock and the allowed
  delay are: also when every expected public event is recent and when the ledger has no
  public event at all.
\<close>

theorem checkEventsList_empty_is_fatal:
  "checkEventsList AllowableDelay now stateEvents [] = Returns (Some (Fatal EventCountWrong))"
  by (simp add: checkEventsList_def)

text \<open>
  C3, as the code has it: for a sorted observed list with more events than the expected public
  events (of which there is at least one), \<open>checkEventsList\<close> returns success in every
  case. Its loop drops from the end of the observed list the events whose ID is strictly
  greater than the ID of the last expected event, never the first event, and stops at the first
  event that is not; what is left is compared with nothing, since the positional comparison is
  commented out. So a surplus event whose ID is not greater than the last expected ID is kept
  and tolerated, not refused.
\<close>

theorem checkEventsList_surplus_never_fails:
  assumes "SliceIsSorted (\<lambda>a b. JsonEvent.ID a < JsonEvent.ID b) events"
    and "expected = FilterPublicEvents stateEvents"
    and "length expected < length events"
    and "expected \<noteq> []"
  shows "checkEventsList AllowableDelay now stateEvents events = Returns None \<and>
    (\<exists>k. 0 < k \<and> k \<le> length events \<and>
       trimLoop expected events (length events - 1) = Returns (take k events) \<and>
       (\<forall>e\<in>set (drop k events). Event.ID (last expected) < JsonEvent.ID e) \<and>
       (1 < k \<longrightarrow> JsonEvent.ID (events ! (k - 1)) \<le> Event.ID (last expected)))"
proof -
  from assms(3) have n: "length events - 1 < length events" "Suc (length events - 1) = length events"
    by auto
  from trimLoop_take[OF assms(4) n(1)] obtain k where k: "0 < k" "k \<le> length events"
      "trimLoop expected events (length events - 1) = Returns (take k events)"
      "\<forall>e\<in>set (drop k events). Event.ID (last expected) < JsonEvent.ID e"
      "1 < k \<longrightarrow> JsonEvent.ID (events ! (k - 1)) \<le> Event.ID (last expected)"
    unfolding n(2) by auto
  from assms(3) have "events \<noteq> []" by auto
  then have "checkEventsList AllowableDelay now stateEvents events = Returns None"
    using assms k(3) by (simp add: checkEventsList_def Let_def)
  with k show ?thesis by blast
qed

theorem checkEventsList_surplus_never_fails_witness:
  "SliceIsSorted (\<lambda>a b. JsonEvent.ID a < JsonEvent.ID b) [jev 1, jev 2, jev 3, jev 4, jev 5]
   \<and> length (FilterPublicEvents [ev 1 0, ev 2 0, ev 3 0]) < length [jev 1, jev 2, jev 3, jev 4, jev 5]
   \<and> checkEventsList 1000000000 10000000000 [ev 1 0, ev 2 0, ev 3 0] [jev 1, jev 2, jev 3, jev 4, jev 5] = Returns None"
  using checkEventsList_surplus_never_fails[of "[jev 1, jev 2, jev 3, jev 4, jev 5]"
     "FilterPublicEvents [ev 1 0, ev 2 0, ev 3 0]" "[ev 1 0, ev 2 0, ev 3 0]" 1000000000 10000000000]
  by (simp add: FilterPublicEvents_def ev_def jev_def)

text \<open>
  The claim as stated fails: with the expected events 1, 2, 3 and the sorted observation
  1, 2, 3, 3, the surplus event has the ID 3, which is not strictly greater than the greatest
  expected ID, and \<open>checkEventsList\<close> returns success.
\<close>

theorem checkEventsList_surplus_counterexample:
  "length (FilterPublicEvents [ev 1 0, ev 2 0, ev 3 0]) < length [jev 1, jev 2, jev 3, jev 3]
   \<and> \<not> Event.ID (ev 3 0) < JsonEvent.ID (jev 3)
   \<and> checkEventsList 1000000000 10000000000 [ev 1 0, ev 2 0, ev 3 0] [jev 1, jev 2, jev 3, jev 3] = Returns None"
  by (simp add: checkEventsList_def FilterPublicEvents_def ev_def jev_def)

text \<open>
  C4, as the code has it: for a sorted, non-empty observed list with fewer events than the
  expected public events, where the first expected event is not newer than the last observed
  one, \<open>checkEventsList\<close> looks only at the run of expected events at the end of the
  list whose IDs are greater than the last observed ID. It returns the fatal error "the number
  of the events is not correct" when one of them was created before \<open>now - AllowableDelay\<close>,
  and success otherwise. An expected event that is absent from the middle of the observation
  is not looked at.
\<close>

theorem checkEventsList_deficit_trailing_run:
  assumes "SliceIsSorted (\<lambda>a b. JsonEvent.ID a < JsonEvent.ID b) events"
    and "events \<noteq> []"
    and "expected = FilterPublicEvents stateEvents"
    and "length events < length expected"
    and "Event.ID (hd expected) \<le> JsonEvent.ID (last events)"
  shows "checkEventsList AllowableDelay now stateEvents events =
    (if \<exists>e\<in>set (newerTail (JsonEvent.ID (last events)) expected). CreatedAt e < now - AllowableDelay
     then Returns (Some (Fatal EventCountWrong)) else Returns None)"
proof -
  from assms(4) have ne: "expected \<noteq> []" and n: "length expected - 1 < length expected"
      "drop (Suc (length expected - 1)) expected = []"
    by auto
  have "missedLoop expected (JsonEvent.ID (last events)) (length expected - 1) []
        = newerTail (JsonEvent.ID (last events)) (drop 1 expected)"
    using missedLoop_tail[OF n(1), of "JsonEvent.ID (last events)"] unfolding n(2) by simp
  also have "\<dots> = newerTail (JsonEvent.ID (last events)) expected"
    using newerTail_drop1[OF ne assms(5)] .
  finally show ?thesis
    using assms(1,2,3,4) by (simp add: checkEventsList_def Let_def Before_def list_ex_iff)
qed

theorem checkEventsList_deficit_trailing_run_witness:
  "checkEventsList 1000000000 10000000000 [ev 1 0, ev 2 0, ev 3 9900000000] [jev 1, jev 2] = Returns None
 \<and> checkEventsList 1000000000 10000000000 [ev 1 0, ev 2 0, ev 3 5000000000] [jev 1, jev 2] = Returns (Some (Fatal EventCountWrong))"
  using checkEventsList_deficit_trailing_run[of "[jev 1, jev 2]"
     "FilterPublicEvents [ev 1 0, ev 2 0, ev 3 9900000000]" "[ev 1 0, ev 2 0, ev 3 9900000000]" 1000000000 10000000000]
    checkEventsList_deficit_trailing_run[of "[jev 1, jev 2]"
     "FilterPublicEvents [ev 1 0, ev 2 0, ev 3 5000000000]" "[ev 1 0, ev 2 0, ev 3 5000000000]" 1000000000 10000000000]
  by (simp add: FilterPublicEvents_def ev_def jev_def newerTail_def)

text \<open>
  The claim as stated fails: the expected events 1, 2, 3 were created 10, 5 and 10 seconds
  ago, the allowed delay is one second, and the observation is 1, 3. Event 2 is missing and
  older than the delay, and \<open>checkEventsList\<close> returns success.
\<close>

theorem checkEventsList_deficit_counterexample:
  "length [jev 1, jev 3] < length (FilterPublicEvents [ev 1 0, ev 2 5000000000, ev 3 0])
   \<and> ev 2 5000000000 \<in> set (FilterPublicEvents [ev 1 0, ev 2 5000000000, ev 3 0])
   \<and> Event.ID (ev 2 5000000000) \<notin> set (map JsonEvent.ID [jev 1, jev 3])
   \<and> Before (CreatedAt (ev 2 5000000000)) (10000000000 - 1000000000)
   \<and> checkEventsList 1000000000 10000000000 [ev 1 0, ev 2 5000000000, ev 3 0] [jev 1, jev 3] = Returns None"
  by (simp add: checkEventsList_def FilterPublicEvents_def ev_def jev_def Before_def)

section \<open>Claims about \<open>checkReportRecord\<close>\<close>

text \<open>
  A row whose fields convert, whose event is in the ledger and whose price is the event's
  price plus the price of the sheet kind of its rank reaches the comparison with the
  reservations known before the request.
\<close>

lemma checkReportRecord_parsed:
  assumes "rerr \<noteq> Some EOF" and "8 \<le> length row"
    and "Atoi X (row ! 0) = Some reservationID"
    and "Atoi X (row ! 1) = Some eventID"
    and "Atoi X (row ! 3) = Some sheetNum"
    and "Atoi X (row ! 4) = Some price"
    and "Atoi X (row ! 5) = Some userID"
    and "ParseRFC3339 X (row ! 6) = Some soldAt"
    and "(if row ! 7 \<noteq> [] then ParseRFC3339 X (row ! 7) else Some 0) = Some canceledAt"
    and "FindEventByID s (word_of_int eventID) = Some event"
    and "GetSheetKindByRank X (row ! 2) = Some kind"
    and "word_of_int price = Event.Price event + SheetKind.Price kind"
  shows "checkReportRecord X s row rerr line timeBefore before after =
    Returns (checkKnownReservation X line timeBefore before
        \<lparr>ReportRecord.ReservationID = word_of_int reservationID,
         ReportRecord.EventID = word_of_int eventID,
         ReportRecord.SheetRank = row ! 2,
         ReportRecord.SheetNum = word_of_int sheetNum,
         ReportRecord.UserID = word_of_int userID,
         ReportRecord.CanceledAt = canceledAt\<rparr>)"
proof -
  from assms(2) have "index row 0 = Returns (row ! 0)" "index row 1 = Returns (row ! 1)"
    "index row 2 = Returns (row ! 2)" "index row 3 = Returns (row ! 3)"
    "index row 4 = Returns (row ! 4)" "index row 5 = Returns (row ! 5)"
    "index row 6 = Returns (row ! 6)" "index row 7 = Returns (row ! 7)"
    by (auto simp add: index_def)
  then show ?thesis
    using assms(1,3-)
    by (simp add: checkReportRecord_def withIndex_def orInvalid_def checkEventAndPrice_def)
qed

lemma sampleRow_parses:
  "decimalAtoi ''1'' = Some 1" "decimalAtoi ''36'' = Some 36" "decimalAtoi ''8000'' = Some 8000"
  "decimalAtoi ''1002'' = Some 1002"
  by (simp_all add: decimalAtoi_def digitOf_def)

text \<open>
  C5, as the code has it: for a row that reaches the comparison and whose reservation ID is a
  key of \<open>reservationsBeforeRequest\<close>, \<open>checkReportRecord\<close> requires the reservation ID,
  the event ID, the user ID, the sheet rank and the sheet number to be those of the stored
  reservation: a difference in any of the five gives the fatal error "the right report was not
  obtained" (and no record), and a returned record agrees in all five. The other fields of the
  row are not compared with the stored reservation: \<open>sold_at\<close> only has to parse (the result
  is the same with any other timestamp that parses), and a \<open>canceled_at\<close> that is present is
  accepted when the five fields agree, whatever the ledger knows of the reservation (an empty
  one is the subject of C6). The price was checked before, against the event and the sheet
  kind.
\<close>

theorem checkReportRecord_known_reservation_must_match:
  assumes "rerr \<noteq> Some EOF" and "8 \<le> length row"
    and "Atoi X (row ! 0) = Some reservationID"
    and "Atoi X (row ! 1) = Some eventID"
    and "Atoi X (row ! 3) = Some sheetNum"
    and "Atoi X (row ! 4) = Some price"
    and "Atoi X (row ! 5) = Some userID"
    and "ParseRFC3339 X (row ! 6) = Some soldAt"
    and "(if row ! 7 \<noteq> [] then ParseRFC3339 X (row ! 7) else Some 0) = Some canceledAt"
    and "FindEventByID s (word_of_int eventID) = Some event"
    and "GetSheetKindByRank X (row ! 2) = Some kind"
    and "word_of_int price = Event.Price event + SheetKind.Price kind"
    and "reservationsBeforeRequest (word_of_int reservationID) = Some stored"
  shows "((Reservation.ID stored \<noteq> word_of_int reservationID \<or>
           Reservation.EventID stored \<noteq> word_of_int eventID \<or>
           Reservation.UserID stored \<noteq> word_of_int userID \<or>
           Reservation.SheetRank stored \<noteq> row ! 2 \<or>
           Reservation.SheetNum stored \<noteq> word_of_int sheetNum) \<longrightarrow>
          checkReportRecord X s row rerr line timeBefore reservationsBeforeRequest reservationsAfterResponse =
            Returns ([DebugUnexpectedData line], None, Some (Fatal WrongReport))) \<and>
         ((\<exists>logs record. checkReportRecord X s row rerr line timeBefore reservationsBeforeRequest
              reservationsAfterResponse = Returns (logs, Some record, None)) \<longrightarrow>
          Reservation.ID stored = word_of_int reservationID \<and>
          Reservation.EventID stored = word_of_int eventID \<and>
          Reservation.UserID stored = word_of_int userID \<and>
          Reservation.SheetRank stored = row ! 2 \<and>
          Reservation.SheetNum stored = word_of_int sheetNum) \<and>
         (ParseRFC3339 X otherSoldAt \<noteq> None \<longrightarrow>
          checkReportRecord X s (row[6 := otherSoldAt]) rerr line timeBefore reservationsBeforeRequest
              reservationsAfterResponse =
          checkReportRecord X s row rerr line timeBefore reservationsBeforeRequest
              reservationsAfterResponse) \<and>
         (Reservation.ID stored = word_of_int reservationID \<and>
          Reservation.EventID stored = word_of_int eventID \<and>
          Reservation.UserID stored = word_of_int userID \<and>
          Reservation.SheetRank stored = row ! 2 \<and>
          Reservation.SheetNum stored = word_of_int sheetNum \<and>
          \<not> IsZero canceledAt \<longrightarrow>
          checkReportRecord X s row rerr line timeBefore reservationsBeforeRequest reservationsAfterResponse =
            Returns ([], Some \<lparr>ReportRecord.ReservationID = word_of_int reservationID,
              ReportRecord.EventID = word_of_int eventID,
              ReportRecord.SheetRank = row ! 2,
              ReportRecord.SheetNum = word_of_int sheetNum,
              ReportRecord.UserID = word_of_int userID,
              ReportRecord.CanceledAt = canceledAt\<rparr>, None))"
proof -
  note parsed = checkReportRecord_parsed[OF assms(1-12)]
  have five: "((Reservation.ID stored \<noteq> word_of_int reservationID \<or>
           Reservation.EventID stored \<noteq> word_of_int eventID \<or>
           Reservation.UserID stored \<noteq> word_of_int userID \<or>
           Reservation.SheetRank stored \<noteq> row ! 2 \<or>
           Reservation.SheetNum stored \<noteq> word_of_int sheetNum) \<longrightarrow>
          checkReportRecord X s row rerr line timeBefore reservationsBeforeRequest reservationsAfterResponse =
            Returns ([DebugUnexpectedData line], None, Some (Fatal WrongReport))) \<and>
         ((\<exists>logs record. checkReportRecord X s row rerr line timeBefore reservationsBeforeRequest
              reservationsAfterResponse = Returns (logs, Some record, None)) \<longrightarrow>
          Reservation.ID stored = word_of_int reservationID \<and>
          Reservation.EventID stored = word_of_int eventID \<and>
          Reservation.UserID stored = word_of_int userID \<and>
          Reservation.SheetRank stored = row ! 2 \<and>
          Reservation.SheetNum stored = word_of_int sheetNum)"
    unfolding parsed
    using assms(13) by (auto simp add: checkKnownReservation_def split: if_splits)
  have sold: "ParseRFC3339 X otherSoldAt \<noteq> None \<longrightarrow>
          checkReportRecord X s (row[6 := otherSoldAt]) rerr line timeBefore reservationsBeforeRequest
              reservationsAfterResponse =
          checkReportRecord X s row rerr line timeBefore reservationsBeforeRequest
              reservationsAfterResponse"
  proof
    assume "ParseRFC3339 X otherSoldAt \<noteq> None"
    then obtain t where t: "ParseRFC3339 X otherSoldAt = Some t" by blast
    let ?row = "row[6 := otherSoldAt]"
    from assms(2) have len: "8 \<le> length ?row" by simp
    from assms(2) have ix: "?row ! 0 = row ! 0" "?row ! 1 = row ! 1" "?row ! 2 = row ! 2"
        "?row ! 3 = row ! 3" "?row ! 4 = row ! 4" "?row ! 5 = row ! 5" "?row ! 6 = otherSoldAt"
        "?row ! 7 = row ! 7"
      by simp_all
    have "checkReportRecord X s ?row rerr line timeBefore reservationsBeforeRequest
              reservationsAfterResponse =
        Returns (checkKnownReservation X line timeBefore reservationsBeforeRequest
          \<lparr>ReportRecord.ReservationID = word_of_int reservationID,
           ReportRecord.EventID = word_of_int eventID,
           ReportRecord.SheetRank = ?row ! 2,
           ReportRecord.SheetNum = word_of_int sheetNum,
           ReportRecord.UserID = word_of_int userID,
           ReportRecord.CanceledAt = canceledAt\<rparr>)"
      by (rule checkReportRecord_parsed[OF assms(1) len, where soldAt = t])
         (use assms t in \<open>auto simp add: ix split: if_splits\<close>)
    then show "checkReportRecord X s ?row rerr line timeBefore reservationsBeforeRequest
              reservationsAfterResponse =
          checkReportRecord X s row rerr line timeBefore reservationsBeforeRequest
              reservationsAfterResponse"
      by (simp only: parsed ix)
  qed
  have present: "Reservation.ID stored = word_of_int reservationID \<and>
          Reservation.EventID stored = word_of_int eventID \<and>
          Reservation.UserID stored = word_of_int userID \<and>
          Reservation.SheetRank stored = row ! 2 \<and>
          Reservation.SheetNum stored = word_of_int sheetNum \<and>
          \<not> IsZero canceledAt \<longrightarrow>
          checkReportRecord X s row rerr line timeBefore reservationsBeforeRequest reservationsAfterResponse =
            Returns ([], Some \<lparr>ReportRecord.ReservationID = word_of_int reservationID,
              ReportRecord.EventID = word_of_int eventID,
              ReportRecord.SheetRank = row ! 2,
              ReportRecord.SheetNum = word_of_int sheetNum,
              ReportRecord.UserID = word_of_int userID,
              ReportRecord.CanceledAt = canceledAt\<rparr>, None)"
    unfolding parsed
    using assms(13) by (simp add: checkKnownReservation_def)
  from five sold present show ?thesis by blast
qed

theorem checkReportRecord_known_reservation_must_match_witness:
  "checkReportRecord (sampleExternals (\<lambda>r t. False) (\<lambda>r t. False)) sampleState
     (sampleRow[5 := ''1003'']) None 0 63670078600000000000 [1 \<mapsto> sampleReservation] Map.empty =
   Returns ([DebugUnexpectedData 0], None, Some (Fatal WrongReport)) \<and>
   checkReportRecord (sampleExternals (\<lambda>r t. False) (\<lambda>r t. False)) sampleState
     sampleRow None 0 63670078600000000000 [1 \<mapsto> sampleReservation] Map.empty =
   Returns ([], Some \<lparr>ReportRecord.ReservationID = 1, ReportRecord.EventID = 1,
     ReportRecord.SheetRank = ''S'', ReportRecord.SheetNum = 36, ReportRecord.UserID = 1002,
     ReportRecord.CanceledAt = 0\<rparr>, None) \<and>
   Reservation.UserID sampleReservation = 1002 \<and>
   checkReportRecord (sampleExternals (\<lambda>r t. False) (\<lambda>r t. False)) sampleState
     (sampleRow[6 := ''2018-08-17T04:58:31Z'', 7 := ''2018-08-17T04:58:31Z'']) None 0
     63670078600000000000 [1 \<mapsto> sampleReservation] Map.empty =
   Returns ([], Some \<lparr>ReportRecord.ReservationID = 1, ReportRecord.EventID = 1,
     ReportRecord.SheetRank = ''S'', ReportRecord.SheetNum = 36, ReportRecord.UserID = 1002,
     ReportRecord.CanceledAt = 63670078711000000000\<rparr>, None)"
proof -
  have atoi1003: "decimalAtoi ''1003'' = Some 1003"
    by (simp add: decimalAtoi_def digitOf_def)
  have a: "checkReportRecord (sampleExternals (\<lambda>r t. False) (\<lambda>r t. False)) sampleState
     (sampleRow[5 := ''1003'']) None 0 63670078600000000000 [1 \<mapsto> sampleReservation] Map.empty =
   Returns ([DebugUnexpectedData 0], None, Some (Fatal WrongReport))"
    using checkReportRecord_known_reservation_must_match[of None "sampleRow[5 := ''1003'']"
      "sampleExternals (\<lambda>r t. False) (\<lambda>r t. False)" 1 1 36 8000 1003 63670078530000000000 0
      sampleState "hd (stEvents sampleState)" "\<lparr>SheetKind.Rank = ''S'', SheetKind.Price = 5000\<rparr>"
      "[1 \<mapsto> sampleReservation]" sampleReservation 0 63670078600000000000 Map.empty]
    by (simp add: sampleExternals_def sampleRow_def sampleRow_parses atoi1003 sampleParse_def
        sampleSheetKind_def sampleState_def FindEventByID_def sampleReservation_def)
  have b: "checkReportRecord (sampleExternals (\<lambda>r t. False) (\<lambda>r t. False)) sampleState
     sampleRow None 0 63670078600000000000 [1 \<mapsto> sampleReservation] Map.empty =
   Returns ([], Some \<lparr>ReportRecord.ReservationID = 1, ReportRecord.EventID = 1,
     ReportRecord.SheetRank = ''S'', ReportRecord.SheetNum = 36, ReportRecord.UserID = 1002,
     ReportRecord.CanceledAt = 0\<rparr>, None)"
    by (simp add: checkReportRecord_def withIndex_def index_def orInvalid_def checkEventAndPrice_def
        checkKnownReservation_def sampleExternals_def sampleRow_def sampleRow_parses sampleParse_def
        sampleSheetKind_def sampleState_def FindEventByID_def sampleReservation_def)
  have c: "Reservation.UserID sampleReservation = 1002"
    using b checkReportRecord_known_reservation_must_match[of None sampleRow
      "sampleExternals (\<lambda>r t. False) (\<lambda>r t. False)" 1 1 36 8000 1002 63670078530000000000 0
      sampleState "hd (stEvents sampleState)" "\<lparr>SheetKind.Rank = ''S'', SheetKind.Price = 5000\<rparr>"
      "[1 \<mapsto> sampleReservation]" sampleReservation 0 63670078600000000000 Map.empty]
    by (simp add: sampleExternals_def sampleRow_def sampleRow_parses sampleParse_def
        sampleSheetKind_def sampleState_def FindEventByID_def)
  have d: "checkReportRecord (sampleExternals (\<lambda>r t. False) (\<lambda>r t. False)) sampleState
     (sampleRow[6 := ''2018-08-17T04:58:31Z'', 7 := ''2018-08-17T04:58:31Z'']) None 0
     63670078600000000000 [1 \<mapsto> sampleReservation] Map.empty =
   Returns ([], Some \<lparr>ReportRecord.ReservationID = 1, ReportRecord.EventID = 1,
     ReportRecord.SheetRank = ''S'', ReportRecord.SheetNum = 36, ReportRecord.UserID = 1002,
     ReportRecord.CanceledAt = 63670078711000000000\<rparr>, None)"
    using checkReportRecord_known_reservation_must_match[of None
      "sampleRow[6 := ''2018-08-17T04:58:31Z'', 7 := ''2018-08-17T04:58:31Z'']"
      "sampleExternals (\<lambda>r t. False) (\<lambda>r t. False)" 1 1 36 8000 1002 63670078711000000000
      63670078711000000000
      sampleState "hd (stEvents sampleState)" "\<lparr>SheetKind.Rank = ''S'', SheetKind.Price = 5000\<rparr>"
      "[1 \<mapsto> sampleReservation]" sampleReservation 0 63670078600000000000 Map.empty]
    by (simp add: sampleExternals_def sampleRow_def sampleRow_parses sampleParse_def
        sampleSheetKind_def sampleState_def FindEventByID_def sampleReservation_def IsZero_def)
  from a b c d show ?thesis by blast
qed

text \<open>
  The claim as stated fails: the stored reservation 1 was created at 2018-08-17T04:55:30Z and
  is not canceled; the row agrees with it in the five fields and gives 2018-08-17T04:58:31Z as
  \<open>sold_at\<close> and as \<open>canceled_at\<close>. \<open>checkReportRecord\<close> returns the record with no
  error.
\<close>

theorem checkReportRecord_fields_counterexample:
  "checkReportRecord sampleX sampleState
     (sampleRow[6 := ''2018-08-17T04:58:31Z'', 7 := ''2018-08-17T04:58:31Z'']) None 0
     63670078600000000000 [1 \<mapsto> sampleReservation] Map.empty =
   Returns ([], Some \<lparr>ReportRecord.ReservationID = 1, ReportRecord.EventID = 1,
     ReportRecord.SheetRank = ''S'', ReportRecord.SheetNum = 36, ReportRecord.UserID = 1002,
     ReportRecord.CanceledAt = 63670078711000000000\<rparr>, None) \<and>
   sampleParse ((sampleRow[6 := ''2018-08-17T04:58:31Z'', 7 := ''2018-08-17T04:58:31Z'']) ! 6) = Some 63670078711000000000 \<and>
   Reservation.CreatedAt sampleReservation = 63670078530000000000 \<and>
   sampleParse ((sampleRow[6 := ''2018-08-17T04:58:31Z'', 7 := ''2018-08-17T04:58:31Z'']) ! 7) = Some 63670078711000000000 \<and>
   Reservation.CanceledAt sampleReservation = 0 \<and>
   \<not> Canceled sampleX sampleReservation 63670078600000000000 \<and>
   \<not> MaybeCanceled sampleX sampleReservation 63670078600000000000"
  by (simp add: checkReportRecord_def withIndex_def index_def orInvalid_def checkEventAndPrice_def
      checkKnownReservation_def sampleX_def sampleExternals_def sampleRow_def sampleRow_parses
      sampleParse_def sampleSheetKind_def sampleState_def FindEventByID_def sampleReservation_def
      IsZero_def)

text \<open>
  C6: for a row that matches a reservation known before the request and has an empty
  \<open>canceled_at\<close>: if the reservation was canceled before \<open>timeBefore\<close>
  (\<open>Canceled(timeBefore)\<close>), \<open>checkReportRecord\<close> returns the fatal error; if it was not, but
  was possibly canceled (\<open>MaybeCanceled(timeBefore)\<close>), the function only writes the warning
  "should have canceledAt ... but ignored (race condition)" and returns the record with no
  error.
\<close>

theorem checkReportRecord_missing_canceled_at:
  assumes "rerr \<noteq> Some EOF" and "8 \<le> length row"
    and "Atoi X (row ! 0) = Some reservationID"
    and "Atoi X (row ! 1) = Some eventID"
    and "Atoi X (row ! 3) = Some sheetNum"
    and "Atoi X (row ! 4) = Some price"
    and "Atoi X (row ! 5) = Some userID"
    and "ParseRFC3339 X (row ! 6) = Some soldAt"
    and "row ! 7 = []"
    and "FindEventByID s (word_of_int eventID) = Some event"
    and "GetSheetKindByRank X (row ! 2) = Some kind"
    and "word_of_int price = Event.Price event + SheetKind.Price kind"
    and "reservationsBeforeRequest (word_of_int reservationID) = Some stored"
    and "Reservation.ID stored = word_of_int reservationID"
    and "Reservation.EventID stored = word_of_int eventID"
    and "Reservation.UserID stored = word_of_int userID"
    and "Reservation.SheetRank stored = row ! 2"
    and "Reservation.SheetNum stored = word_of_int sheetNum"
  shows "(Canceled X stored timeBefore \<longrightarrow>
          checkReportRecord X s row rerr line timeBefore reservationsBeforeRequest reservationsAfterResponse =
            Returns ([DebugShouldHaveCanceledAt line], None, Some (Fatal WrongReport))) \<and>
         (\<not> Canceled X stored timeBefore \<and> MaybeCanceled X stored timeBefore \<longrightarrow>
          checkReportRecord X s row rerr line timeBefore reservationsBeforeRequest reservationsAfterResponse =
            Returns ([WarnShouldHaveCanceledAtIgnored line],
              Some \<lparr>ReportRecord.ReservationID = word_of_int reservationID,
         ReportRecord.EventID = word_of_int eventID,
         ReportRecord.SheetRank = row ! 2,
         ReportRecord.SheetNum = word_of_int sheetNum,
         ReportRecord.UserID = word_of_int userID,
         ReportRecord.CanceledAt = 0\<rparr>, None))"
proof -
  have "(if row ! 7 \<noteq> [] then ParseRFC3339 X (row ! 7) else Some 0) = Some 0"
    using assms(9) by simp
  from checkReportRecord_parsed[OF assms(1-8) this assms(10-12)] assms(13-) show ?thesis
    by (simp add: checkKnownReservation_def IsZero_def)
qed

theorem checkReportRecord_missing_canceled_at_witness:
  "checkReportRecord (sampleExternals (\<lambda>r t. True) (\<lambda>r t. True)) sampleState
     sampleRow None 0 63670078600000000000 [1 \<mapsto> sampleReservation] Map.empty =
   Returns ([DebugShouldHaveCanceledAt 0], None, Some (Fatal WrongReport)) \<and>
   checkReportRecord (sampleExternals (\<lambda>r t. False) (\<lambda>r t. True)) sampleState
     sampleRow None 0 63670078600000000000 [1 \<mapsto> sampleReservation] Map.empty =
   Returns ([WarnShouldHaveCanceledAtIgnored 0], Some \<lparr>ReportRecord.ReservationID = 1,
     ReportRecord.EventID = 1, ReportRecord.SheetRank = ''S'', ReportRecord.SheetNum = 36,
     ReportRecord.UserID = 1002, ReportRecord.CanceledAt = 0\<rparr>, None)"
  using checkReportRecord_missing_canceled_at[of None sampleRow
      "sampleExternals (\<lambda>r t. True) (\<lambda>r t. True)" 1 1 36 8000 1002 63670078530000000000
      sampleState "hd (stEvents sampleState)" "\<lparr>SheetKind.Rank = ''S'', SheetKind.Price = 5000\<rparr>"
      "[1 \<mapsto> sampleReservation]" sampleReservation 63670078600000000000 0 Map.empty]
    checkReportRecord_missing_canceled_at[of None sampleRow
      "sampleExternals (\<lambda>r t. False) (\<lambda>r t. True)" 1 1 36 8000 1002 63670078530000000000
      sampleState "hd (stEvents sampleState)" "\<lparr>SheetKind.Rank = ''S'', SheetKind.Price = 5000\<rparr>"
      "[1 \<mapsto> sampleReservation]" sampleReservation 63670078600000000000 0 Map.empty]
  by (simp add: sampleExternals_def sampleRow_def sampleRow_parses sampleParse_def
      sampleSheetKind_def sampleState_def FindEventByID_def sampleReservation_def)

text \<open>
  C8: a row whose numeric fields and timestamps convert, whose event is in the ledger and whose
  price is the event's price plus the sheet kind's price, and whose reservation ID is not a key
  of \<open>reservationsBeforeRequest\<close>, is returned as the parsed record with no error and no log
  line: nothing else of the row is compared with the ledger.
\<close>

theorem checkReportRecord_unknown_reservation:
  assumes "rerr \<noteq> Some EOF" and "8 \<le> length row"
    and "Atoi X (row ! 0) = Some reservationID"
    and "Atoi X (row ! 1) = Some eventID"
    and "Atoi X (row ! 3) = Some sheetNum"
    and "Atoi X (row ! 4) = Some price"
    and "Atoi X (row ! 5) = Some userID"
    and "ParseRFC3339 X (row ! 6) = Some soldAt"
    and "(if row ! 7 \<noteq> [] then ParseRFC3339 X (row ! 7) else Some 0) = Some canceledAt"
    and "FindEventByID s (word_of_int eventID) = Some event"
    and "GetSheetKindByRank X (row ! 2) = Some kind"
    and "word_of_int price = Event.Price event + SheetKind.Price kind"
    and "reservationsBeforeRequest (word_of_int reservationID) = None"
  shows "checkReportRecord X s row rerr line timeBefore reservationsBeforeRequest reservationsAfterResponse =
    Returns ([], Some \<lparr>ReportRecord.ReservationID = word_of_int reservationID,
         ReportRecord.EventID = word_of_int eventID,
         ReportRecord.SheetRank = row ! 2,
         ReportRecord.SheetNum = word_of_int sheetNum,
         ReportRecord.UserID = word_of_int userID,
         ReportRecord.CanceledAt = canceledAt\<rparr>, None)"
  unfolding checkReportRecord_parsed[OF assms(1-12)]
  using assms(13) by (simp add: checkKnownReservation_def)

theorem checkReportRecord_unknown_reservation_witness:
  "checkReportRecord (sampleExternals (\<lambda>r t. False) (\<lambda>r t. False)) sampleState sampleRow None 0
     63670078600000000000 Map.empty Map.empty =
   Returns ([], Some \<lparr>ReportRecord.ReservationID = 1, ReportRecord.EventID = 1,
     ReportRecord.SheetRank = ''S'', ReportRecord.SheetNum = 36, ReportRecord.UserID = 1002,
     ReportRecord.CanceledAt = 0\<rparr>, None)"
  using checkReportRecord_unknown_reservation[of None sampleRow
      "sampleExternals (\<lambda>r t. False) (\<lambda>r t. False)" 1 1 36 8000 1002 63670078530000000000 0
      sampleState "hd (stEvents sampleState)" "\<lparr>SheetKind.Rank = ''S'', SheetKind.Price = 5000\<rparr>"
      Map.empty 0 63670078600000000000 Map.empty]
  by (simp add: sampleExternals_def sampleRow_def sampleRow_parses sampleParse_def sampleSheetKind_def
      sampleState_def FindEventByID_def)

section \<open>Claims about the actors and the pending logs\<close>

subsection \<open>What a call of \<open>Play\<close> leaves behind\<close>

lemma Play_trace:
  "Play w checker a c = (err, c', w') \<Longrightarrow>
   trace w' = trace w @ [Request checker (Method a) (Path a) (PostJSON a)]"
  by (auto simp add: Play_def Let_def split: list.splits reply.splits if_splits option.splits prod.splits)

















subsection \<open>The online flag\<close>


lemma sample_admin_login_ok:
  "loginAdministratorWithTimeout sampleX \<lparr>trace = [], replies = [Response 200 sampleBody]\<rparr> 7
      sampleAdmin 0 =
     (None, \<lparr>trace = [sampleAdminLoginRequest], replies = []\<rparr>, setAdminOnline sampleAdmin True)"
  by (simp add: loginAdministratorWithTimeout_def Play_def readOnly_def
      checkJsonAdministratorResponse_def sampleX_def sampleExternals_def
      sampleDecodeAdministrator_def sampleBody_def sampleAdmin_def sampleAdminLoginRequest_def
      setAdminOnline_def)







subsection \<open>Logging in an actor that is online\<close>










subsection \<open>The pending logs around a request\<close>

lemma fmtUint_1: "fmtUint 1 = ''1''" "fmtUint 36 = ''36''"
  by (simp_all add: fmtUint_def)

lemma reserveSheet_log:
  assumes "reserveSheet X s w checker userID eventSheet = Returns (reserved, err, s', w', eventSheet')"
  shows "(err \<noteq> None \<longrightarrow>
        trace w' = trace w @
          [LogAppended ReserveLog (reserveLogID s + 1)
             (Some \<lparr>Reservation.ID = 0, Reservation.EventID = EventSheet.EventID eventSheet,
                    Reservation.UserID = userID, Reservation.SheetRank = EventSheet.Rank eventSheet,
                    Reservation.SheetNum = 0, Reservation.CreatedAt = 0, Reservation.CanceledAt = 0\<rparr>),
           Request checker ''POST''
             (''/api/events/'' @ fmtUint (EventSheet.EventID eventSheet) @ ''/actions/reserve'')
             [(''sheet_rank'', EventSheet.Rank eventSheet)]] \<and>
        reserveLog s' = reserveLog s @ [(reserveLogID s + 1,
           Some \<lparr>Reservation.ID = 0, Reservation.EventID = EventSheet.EventID eventSheet,
                 Reservation.UserID = userID, Reservation.SheetRank = EventSheet.Rank eventSheet,
                 Reservation.SheetNum = 0, Reservation.CreatedAt = 0, Reservation.CanceledAt = 0\<rparr>)]) \<and>
     (err = None \<longrightarrow>
        trace w' = trace w @
          [LogAppended ReserveLog (reserveLogID s + 1)
             (Some \<lparr>Reservation.ID = 0, Reservation.EventID = EventSheet.EventID eventSheet,
                    Reservation.UserID = userID, Reservation.SheetRank = EventSheet.Rank eventSheet,
                    Reservation.SheetNum = 0, Reservation.CreatedAt = 0, Reservation.CanceledAt = 0\<rparr>),
           Request checker ''POST''
             (''/api/events/'' @ fmtUint (EventSheet.EventID eventSheet) @ ''/actions/reserve'')
             [(''sheet_rank'', EventSheet.Rank eventSheet)],
           LogDeleted ReserveLog (reserveLogID s + 1)] \<and>
        reserveLog s' = filter (\<lambda>entry. fst entry \<noteq> reserveLogID s + 1) (reserveLog s) \<and>
        reserveLogID s + 1 \<notin> fst ` set (reserveLog s'))"
proof -
  let ?a = "\<lparr>Method = ''POST'',
      Path = ''/api/events/'' @ fmtUint (EventSheet.EventID eventSheet) @ ''/actions/reserve'',
      ExpectedStatusCode = 202, PostJSON = [(''sheet_rank'', EventSheet.Rank eventSheet)],
      CheckFunc = Some (checkJsonReservationResponse X), Timeout = 0\<rparr>"
  let ?r0 = "\<lparr>JsonReservation.ReservationID = 0, JsonReservation.SheetRank = EventSheet.Rank eventSheet,
      JsonReservation.SheetNum = 0\<rparr>"
  let ?p0 = "\<lparr>Reservation.ID = 0, Reservation.EventID = EventSheet.EventID eventSheet,
                    Reservation.UserID = userID, Reservation.SheetRank = EventSheet.Rank eventSheet,
                    Reservation.SheetNum = 0, Reservation.CreatedAt = 0, Reservation.CanceledAt = 0\<rparr>"
  let ?w1 = "w\<lparr>trace := trace w @ [LogAppended ReserveLog (reserveLogID s + 1) (Some ?p0)]\<rparr>"
  obtain e r w2 where p: "Play ?w1 checker ?a ?r0 = (e, r, w2)"
    by (metis prod_cases3)
  from Play_trace[OF p] have t: "trace w2 = trace w @
      [LogAppended ReserveLog (reserveLogID s + 1) (Some ?p0),
       Request checker ''POST''
         (''/api/events/'' @ fmtUint (EventSheet.EventID eventSheet) @ ''/actions/reserve'')
         [(''sheet_rank'', EventSheet.Rank eventSheet)]]"
    by simp
  show ?thesis
  proof (cases e)
    case None
    with assms p t show ?thesis
      by (auto simp add: reserveSheet_def AppendReserveLog_def DeleteReserveLog_def
          CommitReservation_def Let_def split: option.splits)
  next
    case (Some x)
    with assms p t show ?thesis
      by (auto simp add: reserveSheet_def AppendReserveLog_def Let_def)
  qed
qed

lemma cancelSheet_log:
  assumes "cancelSheet X s w checker userID eventSheet reserved = Returns (err, s', w', eventSheet')"
  shows "(err \<noteq> None \<longrightarrow>
        trace w' = trace w @
          [LogAppended CancelLog
             (cancelLogID (snd (BeginCancelReservation X s (JsonReservation.ReservationID reserved))) + 1)
             (fst (BeginCancelReservation X s (JsonReservation.ReservationID reserved))),
           Request checker ''DELETE''
             (''/api/events/'' @ fmtUint (EventSheet.EventID eventSheet) @ ''/sheets/''
              @ EventSheet.Rank eventSheet @ ''/'' @ fmtUint (JsonReservation.SheetNum reserved)
              @ ''/reservation'') []] \<and>
        cancelLog s' =
          cancelLog (snd (BeginCancelReservation X s (JsonReservation.ReservationID reserved))) @
          [(cancelLogID (snd (BeginCancelReservation X s (JsonReservation.ReservationID reserved))) + 1,
            fst (BeginCancelReservation X s (JsonReservation.ReservationID reserved)))]) \<and>
     (err = None \<longrightarrow>
        trace w' = trace w @
          [LogAppended CancelLog
             (cancelLogID (snd (BeginCancelReservation X s (JsonReservation.ReservationID reserved))) + 1)
             (fst (BeginCancelReservation X s (JsonReservation.ReservationID reserved))),
           Request checker ''DELETE''
             (''/api/events/'' @ fmtUint (EventSheet.EventID eventSheet) @ ''/sheets/''
              @ EventSheet.Rank eventSheet @ ''/'' @ fmtUint (JsonReservation.SheetNum reserved)
              @ ''/reservation'') [],
           LogDeleted CancelLog
             (cancelLogID (snd (BeginCancelReservation X s (JsonReservation.ReservationID reserved))) + 1)] \<and>
        cancelLogID (snd (BeginCancelReservation X s (JsonReservation.ReservationID reserved))) + 1
          \<notin> fst ` set (cancelLog s'))"
proof -
  obtain reservation s0 where b: "BeginCancelReservation X s (JsonReservation.ReservationID reserved) = (reservation, s0)"
    by (metis surj_pair)
  let ?a = "\<lparr>Method = ''DELETE'',
      Path = ''/api/events/'' @ fmtUint (EventSheet.EventID eventSheet) @ ''/sheets/''
             @ EventSheet.Rank eventSheet @ ''/'' @ fmtUint (JsonReservation.SheetNum reserved)
             @ ''/reservation'',
      ExpectedStatusCode = 204, PostJSON = [],
      CheckFunc = (None :: (int \<Rightarrow> string \<Rightarrow> unit \<Rightarrow> error option \<times> unit) option),
      Timeout = 0\<rparr>"
  let ?w1 = "w\<lparr>trace := trace w @ [LogAppended CancelLog (cancelLogID s0 + 1) reservation]\<rparr>"
  obtain e r w2 where p: "Play ?w1 checker ?a () = (e, r, w2)"
    by (metis prod_cases3)
  from Play_trace[OF p] have t: "trace w2 = trace w @
      [LogAppended CancelLog (cancelLogID s0 + 1) reservation,
       Request checker ''DELETE''
             (''/api/events/'' @ fmtUint (EventSheet.EventID eventSheet) @ ''/sheets/''
              @ EventSheet.Rank eventSheet @ ''/'' @ fmtUint (JsonReservation.SheetNum reserved)
              @ ''/reservation'') []]"
    by simp
  show ?thesis
  proof (cases e)
    case None
    with assms p t b show ?thesis
      by (auto simp add: cancelSheet_def AppendCancelLog_def DeleteCancelLog_def
          Let_def split: option.splits)
  next
    case (Some x)
    with assms p t b show ?thesis
      by (auto simp add: cancelSheet_def AppendCancelLog_def Let_def)
  qed
qed

lemma sample_reserve_fails:
  "reserveSheet sampleX sampleState \<lparr>trace = [], replies = [NetworkFailure]\<rparr> 7 1002 sampleSheet =
     Returns (None, Some (Fatal RequestFailed), sampleState\<lparr>reserveLogID := 1, reserveLog := [(1, Some samplePending)]\<rparr>,
       \<lparr>trace = [LogAppended ReserveLog 1 (Some samplePending), Request 7 ''POST'' ''/api/events/1/actions/reserve'' [(''sheet_rank'', ''S'')]], replies = []\<rparr>,
       sampleSheet)"
  by (simp add: reserveSheet_def AppendReserveLog_def Play_def sampleSheet_def samplePending_def
      sampleState_def fmtUint_1 Let_def)

lemma sample_reserve_ok:
  \<open>reserveSheet sampleX sampleState
      \<lparr>trace = [], replies = [Response 202 ''{"reservation_id":7,"sheet_rank":"S","sheet_num":36}'']\<rparr>
      7 1002 sampleSheet =
     Returns (Some \<lparr>JsonReservation.ReservationID = 7, JsonReservation.SheetRank = ''S'',
                    JsonReservation.SheetNum = 36\<rparr>, None,
       sampleState\<lparr>reserveLogID := 1,
         stReservations := [1 \<mapsto> sampleReservation,
            7 \<mapsto> \<lparr>Reservation.ID = 7, Reservation.EventID = 1, Reservation.UserID = 1002,
                   Reservation.SheetRank = ''S'', Reservation.SheetNum = 36,
                   Reservation.CreatedAt = 0, Reservation.CanceledAt = 0\<rparr>],
         stEvents := [\<lparr>Event.ID = 1, Title = ''e'', Price = 3000, PublicFg = True,
            ClosedFg = False, Remains = 998, CreatedAt = 63670078000000000000\<rparr>]\<rparr>,
       \<lparr>trace = [LogAppended ReserveLog 1 (Some samplePending), Request 7 ''POST'' ''/api/events/1/actions/reserve'' [(''sheet_rank'', ''S'')],
                 LogDeleted ReserveLog 1], replies = []\<rparr>,
       sampleSheet\<lparr>EventSheet.Num := 36\<rparr>)\<close>
  by (simp add: reserveSheet_def AppendReserveLog_def DeleteReserveLog_def CommitReservation_def
      Play_def checkJsonReservationResponse_def sampleSheet_def samplePending_def sampleState_def
      sampleX_def sampleExternals_def sampleDecodeReservation_def fmtUint_1 Let_def
      FindEventByID_def)

lemma sample_cancel_fails:
  "cancelSheet sampleX sampleState \<lparr>trace = [], replies = [NetworkFailure]\<rparr> 7 1002
      (sampleSheet\<lparr>EventSheet.Num := 36\<rparr>) sampleReserved =
     Returns (Some (Fatal RequestFailed), sampleState\<lparr>cancelLogID := 1, cancelLog := [(1, Some sampleReservation)]\<rparr>,
       \<lparr>trace = [LogAppended CancelLog 1 (Some sampleReservation), Request 7 ''DELETE'' ''/api/events/1/sheets/S/36/reservation'' []], replies = []\<rparr>,
       sampleSheet\<lparr>EventSheet.Num := 36\<rparr>)"
  by (simp add: cancelSheet_def AppendCancelLog_def Play_def sampleSheet_def sampleReserved_def
      sampleState_def sampleX_def sampleExternals_def fmtUint_1 Let_def)

lemma sample_cancel_ok:
  "cancelSheet sampleX sampleState \<lparr>trace = [], replies = [Response 204 []]\<rparr> 7 1002
      (sampleSheet\<lparr>EventSheet.Num := 36\<rparr>) sampleReserved =
     Returns (None,
       sampleState\<lparr>cancelLogID := 1,
         stEvents := [\<lparr>Event.ID = 1, Title = ''e'', Price = 3000, PublicFg = True,
            ClosedFg = False, Remains = 1000, CreatedAt = 63670078000000000000\<rparr>]\<rparr>,
       \<lparr>trace = [LogAppended CancelLog 1 (Some sampleReservation), Request 7 ''DELETE'' ''/api/events/1/sheets/S/36/reservation'' [],
                 LogDeleted CancelLog 1], replies = []\<rparr>,
       sampleSheet)"
  by (simp add: cancelSheet_def AppendCancelLog_def DeleteCancelLog_def Play_def sampleSheet_def
      sampleReserved_def sampleState_def sampleX_def sampleExternals_def fmtUint_1 Let_def
      FindEventByID_def NonReservedNum_def)

text \<open>
  C1, as the code has it: \<open>reserveSheet\<close> and \<open>cancelSheet\<close> append the pending log entry
  under the next log ID immediately before their one request: in the trace the entry is put
  into the log, then the request is sent, and nothing stands between the two. When \<open>Play\<close>
  succeeds the entry is taken out of the log right after the request, before the function
  returns: the trace ends with the deletion and the log holds no entry with that log ID. When
  \<open>Play\<close> returns an error the function returns that error at once: the trace ends with the
  request, no deletion follows, and the log is the log as it was with the new entry at its end.
\<close>

theorem pending_log_removed_only_on_success:
  "(reserveSheet X s w checker userID eventSheet = Returns (reserved, err, s', w', eventSheet') \<longrightarrow>
     (err \<noteq> None \<longrightarrow>
          trace w' = trace w @
            [LogAppended ReserveLog (reserveLogID s + 1)
               (Some \<lparr>Reservation.ID = 0, Reservation.EventID = EventSheet.EventID eventSheet,
                      Reservation.UserID = userID, Reservation.SheetRank = EventSheet.Rank eventSheet,
                      Reservation.SheetNum = 0, Reservation.CreatedAt = 0, Reservation.CanceledAt = 0\<rparr>),
             Request checker ''POST''
               (''/api/events/'' @ fmtUint (EventSheet.EventID eventSheet) @ ''/actions/reserve'')
               [(''sheet_rank'', EventSheet.Rank eventSheet)]] \<and>
          reserveLog s' = reserveLog s @ [(reserveLogID s + 1,
             Some \<lparr>Reservation.ID = 0, Reservation.EventID = EventSheet.EventID eventSheet,
                   Reservation.UserID = userID, Reservation.SheetRank = EventSheet.Rank eventSheet,
                   Reservation.SheetNum = 0, Reservation.CreatedAt = 0, Reservation.CanceledAt = 0\<rparr>)]) \<and>
       (err = None \<longrightarrow>
          trace w' = trace w @
            [LogAppended ReserveLog (reserveLogID s + 1)
               (Some \<lparr>Reservation.ID = 0, Reservation.EventID = EventSheet.EventID eventSheet,
                      Reservation.UserID = userID, Reservation.SheetRank = EventSheet.Rank eventSheet,
                      Reservation.SheetNum = 0, Reservation.CreatedAt = 0, Reservation.CanceledAt = 0\<rparr>),
             Request checker ''POST''
               (''/api/events/'' @ fmtUint (EventSheet.EventID eventSheet) @ ''/actions/reserve'')
               [(''sheet_rank'', EventSheet.Rank eventSheet)],
             LogDeleted ReserveLog (reserveLogID s + 1)] \<and>
          reserveLog s' = filter (\<lambda>entry. fst entry \<noteq> reserveLogID s + 1) (reserveLog s) \<and>
          reserveLogID s + 1 \<notin> fst ` set (reserveLog s'))) \<and>
   (cancelSheet X s w checker userID eventSheet toCancel = Returns (err, s', w', eventSheet') \<longrightarrow>
     (err \<noteq> None \<longrightarrow>
          trace w' = trace w @
            [LogAppended CancelLog
               (cancelLogID (snd (BeginCancelReservation X s (JsonReservation.ReservationID toCancel))) + 1)
               (fst (BeginCancelReservation X s (JsonReservation.ReservationID toCancel))),
             Request checker ''DELETE''
               (''/api/events/'' @ fmtUint (EventSheet.EventID eventSheet) @ ''/sheets/''
                @ EventSheet.Rank eventSheet @ ''/'' @ fmtUint (JsonReservation.SheetNum toCancel)
                @ ''/reservation'') []] \<and>
          cancelLog s' =
            cancelLog (snd (BeginCancelReservation X s (JsonReservation.ReservationID toCancel))) @
            [(cancelLogID (snd (BeginCancelReservation X s (JsonReservation.ReservationID toCancel))) + 1,
              fst (BeginCancelReservation X s (JsonReservation.ReservationID toCancel)))]) \<and>
       (err = None \<longrightarrow>
          trace w' = trace w @
            [LogAppended CancelLog
               (cancelLogID (snd (BeginCancelReservation X s (JsonReservation.ReservationID toCancel))) + 1)
               (fst (BeginCancelReservation X s (JsonReservation.ReservationID toCancel))),
             Request checker ''DELETE''
               (''/api/events/'' @ fmtUint (EventSheet.EventID eventSheet) @ ''/sheets/''
                @ EventSheet.Rank eventSheet @ ''/'' @ fmtUint (JsonReservation.SheetNum toCancel)
                @ ''/reservation'') [],
             LogDeleted CancelLog
               (cancelLogID (snd (BeginCancelReservation X s (JsonReservation.ReservationID toCancel))) + 1)] \<and>
          cancelLogID (snd (BeginCancelReservation X s (JsonReservation.ReservationID toCancel))) + 1
            \<notin> fst ` set (cancelLog s')))"
  using reserveSheet_log[of X s w checker userID eventSheet reserved err s' w' eventSheet']
    cancelSheet_log[of X s w checker userID eventSheet toCancel err s' w' eventSheet']
  by blast

theorem pending_log_removed_only_on_success_witness:
  "reserveLog (sampleState\<lparr>reserveLogID := 1, reserveLog := [(1, Some samplePending)]\<rparr>) =
     reserveLog sampleState @ [(reserveLogID sampleState + 1, Some samplePending)] \<and>
   trace (\<lparr>trace = [LogAppended ReserveLog 1 (Some samplePending), Request 7 ''POST'' ''/api/events/1/actions/reserve'' [(''sheet_rank'', ''S'')],
                 LogDeleted ReserveLog 1], replies = []\<rparr>) =
     [LogAppended ReserveLog 1 (Some samplePending), Request 7 ''POST'' ''/api/events/1/actions/reserve'' [(''sheet_rank'', ''S'')], LogDeleted ReserveLog 1] \<and>
   reserveLog (sampleState\<lparr>reserveLogID := 1,
         stReservations := [1 \<mapsto> sampleReservation,
            7 \<mapsto> \<lparr>Reservation.ID = 7, Reservation.EventID = 1, Reservation.UserID = 1002,
                   Reservation.SheetRank = ''S'', Reservation.SheetNum = 36,
                   Reservation.CreatedAt = 0, Reservation.CanceledAt = 0\<rparr>],
         stEvents := [\<lparr>Event.ID = 1, Title = ''e'', Price = 3000, PublicFg = True,
            ClosedFg = False, Remains = 998, CreatedAt = 63670078000000000000\<rparr>]\<rparr>) = [] \<and>
   cancelLog (sampleState\<lparr>cancelLogID := 1, cancelLog := [(1, Some sampleReservation)]\<rparr>) =
     cancelLog sampleState @ [(cancelLogID sampleState + 1, Some sampleReservation)] \<and>
   trace (\<lparr>trace = [LogAppended CancelLog 1 (Some sampleReservation), Request 7 ''DELETE'' ''/api/events/1/sheets/S/36/reservation'' [],
                 LogDeleted CancelLog 1], replies = []\<rparr>) =
     [LogAppended CancelLog 1 (Some sampleReservation), Request 7 ''DELETE'' ''/api/events/1/sheets/S/36/reservation'' [], LogDeleted CancelLog 1] \<and>
   cancelLogID sampleState + 1 \<notin> fst ` set (cancelLog (sampleState\<lparr>cancelLogID := 1,
         stEvents := [\<lparr>Event.ID = 1, Title = ''e'', Price = 3000, PublicFg = True,
            ClosedFg = False, Remains = 1000, CreatedAt = 63670078000000000000\<rparr>]\<rparr>))"
proof -
  note rf = pending_log_removed_only_on_success[where X = sampleX and s = sampleState
        and w = "\<lparr>trace = [], replies = [NetworkFailure]\<rparr>" and checker = 7 and userID = 1002
        and eventSheet = sampleSheet and reserved = None and err = "Some (Fatal RequestFailed)"
        and s' = "sampleState\<lparr>reserveLogID := 1, reserveLog := [(1, Some samplePending)]\<rparr>"
        and w' = "\<lparr>trace = [LogAppended ReserveLog 1 (Some samplePending), Request 7 ''POST'' ''/api/events/1/actions/reserve'' [(''sheet_rank'', ''S'')]], replies = []\<rparr>"
        and eventSheet' = sampleSheet]
  have "reserveLog (sampleState\<lparr>reserveLogID := 1, reserveLog := [(1, Some samplePending)]\<rparr>) = reserveLog sampleState @ [(reserveLogID sampleState + 1,
           Some \<lparr>Reservation.ID = 0, Reservation.EventID = EventSheet.EventID sampleSheet,
                 Reservation.UserID = 1002, Reservation.SheetRank = EventSheet.Rank sampleSheet,
                 Reservation.SheetNum = 0, Reservation.CreatedAt = 0, Reservation.CanceledAt = 0\<rparr>)]"
    using sample_reserve_fails rf by blast
  then have a: "reserveLog (sampleState\<lparr>reserveLogID := 1, reserveLog := [(1, Some samplePending)]\<rparr>) =
     reserveLog sampleState @ [(reserveLogID sampleState + 1, Some samplePending)]"
    by (simp add: sampleSheet_def samplePending_def)
  note ro = pending_log_removed_only_on_success[where X = sampleX and s = sampleState
        and w = \<open>\<lparr>trace = [], replies = [Response 202 ''{"reservation_id":7,"sheet_rank":"S","sheet_num":36}'']\<rparr>\<close>
        and checker = 7 and userID = 1002 and eventSheet = sampleSheet
        and reserved = "Some \<lparr>JsonReservation.ReservationID = 7, JsonReservation.SheetRank = ''S'',
                    JsonReservation.SheetNum = 36\<rparr>"
        and err = None
        and s' = "sampleState\<lparr>reserveLogID := 1,
         stReservations := [1 \<mapsto> sampleReservation,
            7 \<mapsto> \<lparr>Reservation.ID = 7, Reservation.EventID = 1, Reservation.UserID = 1002,
                   Reservation.SheetRank = ''S'', Reservation.SheetNum = 36,
                   Reservation.CreatedAt = 0, Reservation.CanceledAt = 0\<rparr>],
         stEvents := [\<lparr>Event.ID = 1, Title = ''e'', Price = 3000, PublicFg = True,
            ClosedFg = False, Remains = 998, CreatedAt = 63670078000000000000\<rparr>]\<rparr>"
        and w' = "\<lparr>trace = [LogAppended ReserveLog 1 (Some samplePending), Request 7 ''POST'' ''/api/events/1/actions/reserve'' [(''sheet_rank'', ''S'')],
                 LogDeleted ReserveLog 1], replies = []\<rparr>"
        and eventSheet' = "sampleSheet\<lparr>EventSheet.Num := 36\<rparr>"]
  have "reserveLog (sampleState\<lparr>reserveLogID := 1,
         stReservations := [1 \<mapsto> sampleReservation,
            7 \<mapsto> \<lparr>Reservation.ID = 7, Reservation.EventID = 1, Reservation.UserID = 1002,
                   Reservation.SheetRank = ''S'', Reservation.SheetNum = 36,
                   Reservation.CreatedAt = 0, Reservation.CanceledAt = 0\<rparr>],
         stEvents := [\<lparr>Event.ID = 1, Title = ''e'', Price = 3000, PublicFg = True,
            ClosedFg = False, Remains = 998, CreatedAt = 63670078000000000000\<rparr>]\<rparr>) =
      filter (\<lambda>entry. fst entry \<noteq> reserveLogID sampleState + 1) (reserveLog sampleState)"
    using sample_reserve_ok ro by blast
  then have b: "reserveLog (sampleState\<lparr>reserveLogID := 1,
         stReservations := [1 \<mapsto> sampleReservation,
            7 \<mapsto> \<lparr>Reservation.ID = 7, Reservation.EventID = 1, Reservation.UserID = 1002,
                   Reservation.SheetRank = ''S'', Reservation.SheetNum = 36,
                   Reservation.CreatedAt = 0, Reservation.CanceledAt = 0\<rparr>],
         stEvents := [\<lparr>Event.ID = 1, Title = ''e'', Price = 3000, PublicFg = True,
            ClosedFg = False, Remains = 998, CreatedAt = 63670078000000000000\<rparr>]\<rparr>) = []"
    by (simp add: sampleState_def)
  have \<open>trace (\<lparr>trace = [LogAppended ReserveLog 1 (Some samplePending), Request 7 ''POST'' ''/api/events/1/actions/reserve'' [(''sheet_rank'', ''S'')],
                 LogDeleted ReserveLog 1], replies = []\<rparr>) = trace \<lparr>trace = [], replies = [Response 202 ''{"reservation_id":7,"sheet_rank":"S","sheet_num":36}'']\<rparr> @
          [LogAppended ReserveLog (reserveLogID sampleState + 1)
             (Some \<lparr>Reservation.ID = 0, Reservation.EventID = EventSheet.EventID sampleSheet,
                    Reservation.UserID = 1002, Reservation.SheetRank = EventSheet.Rank sampleSheet,
                    Reservation.SheetNum = 0, Reservation.CreatedAt = 0, Reservation.CanceledAt = 0\<rparr>),
           Request 7 ''POST''
             (''/api/events/'' @ fmtUint (EventSheet.EventID sampleSheet) @ ''/actions/reserve'')
             [(''sheet_rank'', EventSheet.Rank sampleSheet)],
           LogDeleted ReserveLog (reserveLogID sampleState + 1)]\<close>
    using sample_reserve_ok ro by blast
  then have b': "trace (\<lparr>trace = [LogAppended ReserveLog 1 (Some samplePending), Request 7 ''POST'' ''/api/events/1/actions/reserve'' [(''sheet_rank'', ''S'')],
                 LogDeleted ReserveLog 1], replies = []\<rparr>) =
     [LogAppended ReserveLog 1 (Some samplePending), Request 7 ''POST'' ''/api/events/1/actions/reserve'' [(''sheet_rank'', ''S'')], LogDeleted ReserveLog 1]"
    by simp
  note cf = pending_log_removed_only_on_success[where X = sampleX and s = sampleState
        and w = "\<lparr>trace = [], replies = [NetworkFailure]\<rparr>" and checker = 7 and userID = 1002
        and eventSheet = "sampleSheet\<lparr>EventSheet.Num := 36\<rparr>" and toCancel = sampleReserved
        and err = "Some (Fatal RequestFailed)"
        and s' = "sampleState\<lparr>cancelLogID := 1, cancelLog := [(1, Some sampleReservation)]\<rparr>"
        and w' = "\<lparr>trace = [LogAppended CancelLog 1 (Some sampleReservation), Request 7 ''DELETE'' ''/api/events/1/sheets/S/36/reservation'' []], replies = []\<rparr>"
        and eventSheet' = "sampleSheet\<lparr>EventSheet.Num := 36\<rparr>"]
  have "cancelLog (sampleState\<lparr>cancelLogID := 1, cancelLog := [(1, Some sampleReservation)]\<rparr>) =
        cancelLog (snd (BeginCancelReservation sampleX sampleState
            (JsonReservation.ReservationID sampleReserved))) @
        [(cancelLogID (snd (BeginCancelReservation sampleX sampleState
            (JsonReservation.ReservationID sampleReserved))) + 1,
          fst (BeginCancelReservation sampleX sampleState
            (JsonReservation.ReservationID sampleReserved)))]"
    using sample_cancel_fails cf by blast
  then have c: "cancelLog (sampleState\<lparr>cancelLogID := 1, cancelLog := [(1, Some sampleReservation)]\<rparr>) =
     cancelLog sampleState @ [(cancelLogID sampleState + 1, Some sampleReservation)]"
    by (simp add: sampleX_def sampleExternals_def sampleReserved_def sampleState_def)
  note co = pending_log_removed_only_on_success[where X = sampleX and s = sampleState
        and w = "\<lparr>trace = [], replies = [Response 204 []]\<rparr>" and checker = 7 and userID = 1002
        and eventSheet = "sampleSheet\<lparr>EventSheet.Num := 36\<rparr>" and toCancel = sampleReserved
        and err = None
        and s' = "sampleState\<lparr>cancelLogID := 1,
         stEvents := [\<lparr>Event.ID = 1, Title = ''e'', Price = 3000, PublicFg = True,
            ClosedFg = False, Remains = 1000, CreatedAt = 63670078000000000000\<rparr>]\<rparr>"
        and w' = "\<lparr>trace = [LogAppended CancelLog 1 (Some sampleReservation), Request 7 ''DELETE'' ''/api/events/1/sheets/S/36/reservation'' [],
                 LogDeleted CancelLog 1], replies = []\<rparr>"
        and eventSheet' = sampleSheet]
  have "cancelLogID (snd (BeginCancelReservation sampleX sampleState
            (JsonReservation.ReservationID sampleReserved))) + 1
        \<notin> fst ` set (cancelLog (sampleState\<lparr>cancelLogID := 1,
         stEvents := [\<lparr>Event.ID = 1, Title = ''e'', Price = 3000, PublicFg = True,
            ClosedFg = False, Remains = 1000, CreatedAt = 63670078000000000000\<rparr>]\<rparr>))"
    using sample_cancel_ok co by blast
  then have d: "cancelLogID sampleState + 1 \<notin> fst ` set (cancelLog (sampleState\<lparr>cancelLogID := 1,
         stEvents := [\<lparr>Event.ID = 1, Title = ''e'', Price = 3000, PublicFg = True,
            ClosedFg = False, Remains = 1000, CreatedAt = 63670078000000000000\<rparr>]\<rparr>))"
    by (simp add: sampleX_def sampleExternals_def)
  have d': "trace (\<lparr>trace = [LogAppended CancelLog 1 (Some sampleReservation), Request 7 ''DELETE'' ''/api/events/1/sheets/S/36/reservation'' [],
                 LogDeleted CancelLog 1], replies = []\<rparr>) =
     [LogAppended CancelLog 1 (Some sampleReservation), Request 7 ''DELETE'' ''/api/events/1/sheets/S/36/reservation'' [], LogDeleted CancelLog 1]"
    by simp
  from a b' b c d' d show ?thesis by blast
qed

text \<open>
  The claim as stated fails on the error path: the reserve request, and likewise the cancel
  request, meets a network failure; the function returns the fatal error, the trace holds no
  deletion, and the log, empty before, still holds the entry with log ID 1.
\<close>

theorem pending_log_counterexample:
  "reserveSheet sampleX sampleState \<lparr>trace = [], replies = [NetworkFailure]\<rparr> 7 1002 sampleSheet =
     Returns (None, Some (Fatal RequestFailed), sampleState\<lparr>reserveLogID := 1, reserveLog := [(1, Some samplePending)]\<rparr>,
       \<lparr>trace = [LogAppended ReserveLog 1 (Some samplePending), Request 7 ''POST'' ''/api/events/1/actions/reserve'' [(''sheet_rank'', ''S'')]], replies = []\<rparr>,
       sampleSheet) \<and>
   reserveLog sampleState = [] \<and>
   reserveLog (sampleState\<lparr>reserveLogID := 1, reserveLog := [(1, Some samplePending)]\<rparr>) = [(1, Some samplePending)] \<and>
   cancelSheet sampleX sampleState \<lparr>trace = [], replies = [NetworkFailure]\<rparr> 7 1002
      (sampleSheet\<lparr>EventSheet.Num := 36\<rparr>) sampleReserved =
     Returns (Some (Fatal RequestFailed), sampleState\<lparr>cancelLogID := 1, cancelLog := [(1, Some sampleReservation)]\<rparr>,
       \<lparr>trace = [LogAppended CancelLog 1 (Some sampleReservation), Request 7 ''DELETE'' ''/api/events/1/sheets/S/36/reservation'' []], replies = []\<rparr>,
       sampleSheet\<lparr>EventSheet.Num := 36\<rparr>) \<and>
   cancelLog sampleState = [] \<and>
   cancelLog (sampleState\<lparr>cancelLogID := 1, cancelLog := [(1, Some sampleReservation)]\<rparr>) = [(1, Some sampleReservation)]"
  using sample_reserve_fails sample_cancel_fails by (simp add: sampleState_def)

subsection \<open>The attributes of the top page\<close>

text \<open>
  C7 at an input where the code departs from it: the user is offline and the
  \<open>app-wrapper\<close> node carries \<open>data-login-user="null"\<close> twice and no \<open>data-events\<close>.
  Each occurrence passes its check and counts, the counter reaches 2, and the verifier returns
  success although \<open>data-events\<close> is absent. With \<open>data-login-user\<close> once and no
  \<open>data-events\<close> the verifier returns the fatal error "app-wrapper has no data-events or
  no data-login-user", and with both attributes once it returns success.
\<close>

theorem checkTopPage_accepts_duplicate_attribute:
  "checkTopPage sampleX 1000000000 10000000000 [ev 1 0] sampleUser sampleDuplicatePage = Returns None \<and>
   ''data-events'' \<notin> set (map Key (hd (AppWrapper sampleDuplicatePage))) \<and>
   checkTopPage sampleX 1000000000 10000000000 [ev 1 0] sampleUser sampleMissingPage =
     Returns (Some (Fatal AttrsMissing)) \<and>
   checkTopPage sampleX 1000000000 10000000000 [ev 1 0] sampleUser samplePage = Returns None"
  by (simp add: checkTopPage_def sampleDuplicatePage_def sampleMissingPage_def samplePage_def
      sampleX_def sampleExternals_def sampleUser_def sampleDecodeEvents_def checkEventsList_def
      FilterPublicEvents_def ev_def jev_def)

end
